theory Spec2Isabelle
  imports Complex_Main
begin

section \<open>JavaScript values used by the program\<close>

subsection \<open>Numbers\<close>

text \<open>
  A JavaScript number is a finite value, one of the two infinities, or NaN.  Finite values
  are kept as exact rationals: the rounding and the overflow of binary64 are not part of
  this model, and the sign of zero is not tracked (zero is \<open>+0\<close>).  What the model does
  keep is every place where the program's arithmetic can leave the finite numbers:
  division by zero, and the arithmetic of infinities and NaN.
\<close>

datatype jsnum = Fin rat | PInf | NInf | NaN

fun jneg :: "jsnum \<Rightarrow> jsnum" where
  "jneg (Fin a) = Fin (- a)"
| "jneg PInf = NInf"
| "jneg NInf = PInf"
| "jneg NaN = NaN"

text \<open>\<open>a + b\<close>: opposite infinities give NaN.\<close>

fun jadd :: "jsnum \<Rightarrow> jsnum \<Rightarrow> jsnum" where
  "jadd NaN _ = NaN"
| "jadd _ NaN = NaN"
| "jadd (Fin a) (Fin b) = Fin (a + b)"
| "jadd PInf NInf = NaN"
| "jadd NInf PInf = NaN"
| "jadd PInf _ = PInf"
| "jadd NInf _ = NInf"
| "jadd _ PInf = PInf"
| "jadd _ NInf = NInf"

definition jsub :: "jsnum \<Rightarrow> jsnum \<Rightarrow> jsnum" where
  "jsub a b = jadd a (jneg b)"

text \<open>The sign of an infinite product or quotient; an infinity times zero is NaN.\<close>

definition inf_signed :: "bool \<Rightarrow> jsnum" where
  "inf_signed positive = (if positive then PInf else NInf)"

fun jmul :: "jsnum \<Rightarrow> jsnum \<Rightarrow> jsnum" where
  "jmul NaN _ = NaN"
| "jmul _ NaN = NaN"
| "jmul (Fin a) (Fin b) = Fin (a * b)"
| "jmul PInf (Fin b) = (if b = 0 then NaN else inf_signed (0 < b))"
| "jmul NInf (Fin b) = (if b = 0 then NaN else inf_signed (b < 0))"
| "jmul (Fin a) PInf = (if a = 0 then NaN else inf_signed (0 < a))"
| "jmul (Fin a) NInf = (if a = 0 then NaN else inf_signed (a < 0))"
| "jmul PInf PInf = PInf"
| "jmul NInf NInf = PInf"
| "jmul PInf NInf = NInf"
| "jmul NInf PInf = NInf"

text \<open>
  \<open>a / b\<close>: a nonzero finite value divided by zero is an infinity, \<open>0 / 0\<close> and the
  quotient of two infinities are NaN, a finite value divided by an infinity is zero.
\<close>

fun jdiv :: "jsnum \<Rightarrow> jsnum \<Rightarrow> jsnum" where
  "jdiv NaN _ = NaN"
| "jdiv _ NaN = NaN"
| "jdiv (Fin a) (Fin b) =
     (if b \<noteq> 0 then Fin (a / b) else if a = 0 then NaN else inf_signed (0 < a))"
| "jdiv (Fin a) PInf = Fin 0"
| "jdiv (Fin a) NInf = Fin 0"
| "jdiv PInf (Fin b) = inf_signed (0 \<le> b)"
| "jdiv NInf (Fin b) = inf_signed (b < 0)"
| "jdiv PInf PInf = NaN"
| "jdiv PInf NInf = NaN"
| "jdiv NInf PInf = NaN"
| "jdiv NInf NInf = NaN"

text \<open>\<open>a > b\<close>: false as soon as one side is NaN.\<close>

fun jgt :: "jsnum \<Rightarrow> jsnum \<Rightarrow> bool" where
  "jgt NaN _ = False"
| "jgt _ NaN = False"
| "jgt (Fin a) (Fin b) = (b < a)"
| "jgt PInf PInf = False"
| "jgt PInf _ = True"
| "jgt NInf _ = False"
| "jgt (Fin a) PInf = False"
| "jgt (Fin a) NInf = True"

definition isNaN :: "jsnum \<Rightarrow> bool" where
  "isNaN x = (x = NaN)"

definition isFinite :: "jsnum \<Rightarrow> bool" where
  "isFinite x = (case x of Fin _ \<Rightarrow> True | _ \<Rightarrow> False)"

text \<open>Truthiness of a number: zero and NaN are falsy.\<close>

definition truthy_num :: "jsnum \<Rightarrow> bool" where
  "truthy_num x = (x \<noteq> Fin 0 \<and> x \<noteq> NaN)"

text \<open>
  \<open>x || 0\<close> on a field of type \<open>number | undefined\<close>; \<open>None\<close> is \<open>undefined\<close>
  (or \<open>null\<close>).
\<close>

definition or_zero :: "jsnum option \<Rightarrow> jsnum" where
  "or_zero x = (case x of None \<Rightarrow> Fin 0 | Some v \<Rightarrow> if truthy_num v then v else Fin 0)"

subsection \<open>Strings\<close>

text \<open>
  A string is a list of 8-bit characters; a character outside ASCII is written as its
  UTF-8 bytes.  \<open>None\<close> is \<open>undefined\<close>.  \<open>s || d\<close> takes the default when \<open>s\<close> is
  undefined or empty; a template literal prints \<open>undefined\<close> as the word.
\<close>

definition or_default :: "string option \<Rightarrow> string \<Rightarrow> string" where
  "or_default s d = (case s of None \<Rightarrow> d | Some v \<Rightarrow> if v = [] then d else v)"

definition interpolate :: "string option \<Rightarrow> string" where
  "interpolate s = (case s of None \<Rightarrow> ''undefined'' | Some v \<Rightarrow> v)"

section \<open>The data model\<close>

text \<open>
  Modelled from the spec: the interface \<open>UserProfile\<close> of \<open>../types\<close> is not among the
  sources.  The fields are the ones the sources read, numeric fields with the type
  \<open>number | undefined | null\<close> that \<open>safeNum\<close> declares for its argument.
\<close>

record UserProfile =
  currentRole :: "string option"
  yearsExperience :: "jsnum option"
  location :: "string option"
  industry :: "string option"
  currency :: "string option"
  monthlyBaseSalary :: "jsnum option"
  monthlyIncentive :: "jsnum option"
  monthlyOvertime :: "jsnum option"
  annualProfitShare :: "jsnum option"
  festivalBonus :: "jsnum option"
  providentFund :: "jsnum option"
  gratuity :: "jsnum option"
  benefits :: "string list option"
  isEntryLevel :: bool
  education :: "string option"
  userSkills :: "string option"
  projectDetails :: "string option"
  expectedSalary :: "jsnum option"

text \<open>
  Modelled from the spec: the interface \<open>CompensationInsights\<close> of \<open>../types\<close> is not
  among the sources either.  The shape is the one of section 3 of the specification and
  of the response schema the service declares.
\<close>

record SalaryRange =
  range_min :: jsnum
  range_median :: jsnum
  range_max :: jsnum

record MarketAnalysis =
  currentRoleMarketValue :: SalaryRange
  paymentStatus :: string
  percentile :: jsnum
  gapAnalysis :: string

record NextCareerMove =
  roleTitle :: string
  timeframeYears :: string
  probabilityScore :: jsnum
  salaryRange :: SalaryRange
  requiredSkills :: "string list"
  switchChecklist :: "string list option"

record Negotiation =
  whyYouArePerfect :: string
  whyYouDeserveIt :: string
  tips :: "string list"

record CompensationInsights =
  marketAnalysis :: MarketAnalysis
  nextCareerMove :: NextCareerMove
  negotiation :: Negotiation
  verdictColor :: string

section \<open>Derived view values of the results dashboard\<close>

text \<open>
  \<open>currentAnnual\<close>, the same expression in both copies of the dashboard:
  each field is \<open>(field || 0)\<close>, the three monthly ones times 12.
\<close>

definition currentAnnual :: "UserProfile \<Rightarrow> jsnum" where
  "currentAnnual userProfile =
     jadd (jadd (jadd (jadd (jadd (jadd
       (jmul (or_zero (monthlyBaseSalary userProfile)) (Fin 12))
       (jmul (or_zero (monthlyIncentive userProfile)) (Fin 12)))
       (jmul (or_zero (monthlyOvertime userProfile)) (Fin 12)))
       (or_zero (annualProfitShare userProfile)))
       (or_zero (festivalBonus userProfile)))
       (or_zero (providentFund userProfile)))
       (or_zero (gratuity userProfile))"

definition targetEntryAnnual :: "CompensationInsights \<Rightarrow> jsnum" where
  "targetEntryAnnual results = range_median (currentRoleMarketValue (marketAnalysis results))"

definition nextAnnualMedian :: "CompensationInsights \<Rightarrow> jsnum" where
  "nextAnnualMedian results = range_median (salaryRange (nextCareerMove results))"

text \<open>
  \<open>growthPercentage\<close> of the dashboard with the entry-level mode:
  \<^verbatim>\<open>currentAnnual > 0 ? ((nextAnnualMedian - currentAnnual) / currentAnnual) * 100
                    : ((nextAnnualMedian - targetEntryAnnual) / targetEntryAnnual) * 100\<close>
\<close>

definition growthPercentage :: "CompensationInsights \<Rightarrow> UserProfile \<Rightarrow> jsnum" where
  "growthPercentage results userProfile =
     (if jgt (currentAnnual userProfile) (Fin 0)
      then jmul (jdiv (jsub (nextAnnualMedian results) (currentAnnual userProfile))
                      (currentAnnual userProfile)) (Fin 100)
      else jmul (jdiv (jsub (nextAnnualMedian results) (targetEntryAnnual results))
                      (targetEntryAnnual results)) (Fin 100))"

text \<open>
  \<open>growthPercentage\<close> of the copy under \<open>src/components\<close>, which has no second branch:
  \<^verbatim>\<open>((nextAnnualMedian - currentAnnual) / currentAnnual) * 100\<close>
\<close>

definition growthPercentage_components :: "CompensationInsights \<Rightarrow> UserProfile \<Rightarrow> jsnum" where
  "growthPercentage_components results userProfile =
     jmul (jdiv (jsub (nextAnnualMedian results) (currentAnnual userProfile))
                (currentAnnual userProfile)) (Fin 100)"

text \<open>
  The currency symbols outside ASCII, as UTF-8: U+20AC, U+00A3, U+09F3, U+20B9.
\<close>

definition euro_sign :: string where
  "euro_sign = [CHR 0xE2, CHR 0x82, CHR 0xAC]"

definition pound_sign :: string where
  "pound_sign = [CHR 0xC2, CHR 0xA3]"

definition taka_sign :: string where
  "taka_sign = [CHR 0xE0, CHR 0xA7, CHR 0xB3]"

definition rupee_sign :: string where
  "rupee_sign = [CHR 0xE2, CHR 0x82, CHR 0xB9]"

text \<open>\<open>currencySymbol\<close>, the same chain of strict comparisons in both copies.\<close>

definition currencySymbol :: "UserProfile \<Rightarrow> string" where
  "currencySymbol userProfile =
     (if currency userProfile = Some ''USD'' then ''$''
      else if currency userProfile = Some ''EUR'' then euro_sign
      else if currency userProfile = Some ''GBP'' then pound_sign
      else if currency userProfile = Some ''BDT'' then taka_sign
      else if currency userProfile = Some ''INR'' then rupee_sign
      else ''$'')"

section \<open>JSON values and \<open>JSON.parse\<close>\<close>

text \<open>
  The value \<open>JSON.parse\<close> returns.  An object is the list of its properties in the
  order of their first definition.
\<close>

datatype json =
    JNull
  | JBool bool
  | JNum jsnum
  | JStr string
  | JArr "json list"
  | JObj "(string \<times> json) list"

text \<open>Truthiness, as \<open>if (data)\<close> tests it: objects and arrays are always truthy.\<close>

fun truthy :: "json \<Rightarrow> bool" where
  "truthy JNull = False"
| "truthy (JBool b) = b"
| "truthy (JNum n) = truthy_num n"
| "truthy (JStr s) = (s \<noteq> [])"
| "truthy (JArr _) = True"
| "truthy (JObj _) = True"

text \<open>Reading a property of an object; \<open>None\<close> is \<open>undefined\<close>.\<close>

fun get_property :: "json \<Rightarrow> string \<Rightarrow> json option" where
  "get_property (JObj props) k = map_of props k"
| "get_property _ k = None"

text \<open>
  Defining a property: a key that is already there keeps its place and takes the new
  value, as a repeated key in a JSON text does.
\<close>

fun set_property :: "string \<Rightarrow> json \<Rightarrow> (string \<times> json) list \<Rightarrow> (string \<times> json) list" where
  "set_property k v [] = [(k, v)]"
| "set_property k v ((k', v') # props) =
     (if k' = k then (k, v) # props else (k', v') # set_property k v props)"

subsection \<open>A reference parser\<close>

text \<open>
  \<open>JSON.parse\<close> belongs to the JavaScript runtime, not to the program, so the service below
  takes the parser as a parameter and its properties hold for every parser.  The concrete
  instances are evaluated with \<open>json_parse\<close>, which follows the JSON grammar of ECMA-404:
  a scanner over the characters, then a stack machine over the tokens.  \<open>None\<close> is the
  \<open>SyntaxError\<close> that \<open>JSON.parse\<close> throws.  Two limits come from the model of values:
  a number is the exact decimal the text denotes, and a \<open>\u\<close> escape of a surrogate is
  rejected, as the UTF-8 strings of this model have no code unit for it.
\<close>

datatype token = TLBrace | TRBrace | TLBrack | TRBrack | TColon | TComma | TScalar json

definition is_ws :: "char \<Rightarrow> bool" where
  "is_ws c = (c = CHR '' '' \<or> c = CHR 0x09 \<or> c = CHR 0x0A \<or> c = CHR 0x0D)"

definition punct :: "char \<Rightarrow> token option" where
  "punct c =
     (if c = CHR ''{'' then Some TLBrace
      else if c = CHR ''}'' then Some TRBrace
      else if c = CHR ''['' then Some TLBrack
      else if c = CHR '']'' then Some TRBrack
      else if c = CHR '':'' then Some TColon
      else if c = CHR '','' then Some TComma
      else None)"

definition is_digit :: "char \<Rightarrow> bool" where
  "is_digit c = ((0x30::nat) \<le> of_char c \<and> (of_char c :: nat) \<le> 0x39)"

definition digit_val :: "char \<Rightarrow> nat" where
  "digit_val c = of_char c - 0x30"

definition digits_val :: "string \<Rightarrow> nat" where
  "digits_val ds = foldl (\<lambda>n c. 10 * n + digit_val c) 0 ds"

definition hex_val :: "char \<Rightarrow> nat option" where
  "hex_val c =
     (if is_digit c then Some (digit_val c)
      else if (0x61::nat) \<le> of_char c \<and> (of_char c :: nat) \<le> 0x66 then Some (of_char c - 0x61 + 10)
      else if (0x41::nat) \<le> of_char c \<and> (of_char c :: nat) \<le> 0x46 then Some (of_char c - 0x41 + 10)
      else None)"

text \<open>The UTF-8 bytes of a code point of the basic plane; surrogates have none.\<close>

definition utf8 :: "nat \<Rightarrow> string option" where
  "utf8 n =
     (if n < 0x80 then Some [char_of n]
      else if n < 0x800 then Some [char_of (0xC0 + n div 64), char_of (0x80 + n mod 64)]
      else if 0xD800 \<le> n \<and> n < 0xE000 then None
      else Some [char_of (0xE0 + n div 4096), char_of (0x80 + (n div 64) mod 64),
                 char_of (0x80 + n mod 64)])"

text \<open>The character after a backslash, \<open>u\<close> apart.\<close>

definition unescape :: "char \<Rightarrow> char option" where
  "unescape c =
     (if c = CHR 0x22 then Some (CHR 0x22)
      else if c = CHR 0x5C then Some (CHR 0x5C)
      else if c = CHR ''/'' then Some (CHR ''/'')
      else if c = CHR ''b'' then Some (CHR 0x08)
      else if c = CHR ''f'' then Some (CHR 0x0C)
      else if c = CHR ''n'' then Some (CHR 0x0A)
      else if c = CHR ''r'' then Some (CHR 0x0D)
      else if c = CHR ''t'' then Some (CHR 0x09)
      else None)"

definition pow10 :: "int \<Rightarrow> rat" where
  "pow10 k = (if 0 \<le> k then 10 ^ nat k else 1 / 10 ^ nat (- k))"

text \<open>
  The exponent part of a number: nothing, or \<open>e\<close>/\<open>E\<close>, an optional sign and at least
  one digit, up to the end of the word.
\<close>

definition parse_exponent :: "string \<Rightarrow> int option" where
  "parse_exponent s =
     (case s of
        [] \<Rightarrow> Some 0
      | c # r \<Rightarrow>
          if c = CHR ''e'' \<or> c = CHR ''E'' then
            (let negative = (r \<noteq> [] \<and> hd r = CHR ''-'');
                 ds = (if r \<noteq> [] \<and> (hd r = CHR ''-'' \<or> hd r = CHR ''+'') then tl r else r)
             in if ds \<noteq> [] \<and> list_all is_digit ds
                then Some (if negative then - int (digits_val ds) else int (digits_val ds))
                else None)
          else None)"

text \<open>
  A number: an optional minus, an integer part without a leading zero (unless it is the
  single digit 0), an optional fraction of at least one digit, an optional exponent.
\<close>

definition parse_number :: "string \<Rightarrow> jsnum option" where
  "parse_number s =
     (let negative = (s \<noteq> [] \<and> hd s = CHR ''-'');
          s1 = (if negative then tl s else s);
          ip = takeWhile is_digit s1;
          s2 = dropWhile is_digit s1;
          has_frac = (s2 \<noteq> [] \<and> hd s2 = CHR ''.'');
          fp = (if has_frac then takeWhile is_digit (tl s2) else []);
          s3 = (if has_frac then dropWhile is_digit (tl s2) else s2)
      in if ip = [] \<or> (1 < length ip \<and> hd ip = CHR ''0'') \<or> (has_frac \<and> fp = []) then None
         else (case parse_exponent s3 of
                 None \<Rightarrow> None
               | Some ex \<Rightarrow>
                   Some (Fin ((if negative then - 1 else 1) * of_nat (digits_val (ip @ fp))
                              * pow10 (ex - int (length fp))))))"

definition word_token :: "string \<Rightarrow> token option" where
  "word_token w =
     (if w = ''true'' then Some (TScalar (JBool True))
      else if w = ''false'' then Some (TScalar (JBool False))
      else if w = ''null'' then Some (TScalar JNull)
      else map_option (\<lambda>n. TScalar (JNum n)) (parse_number w))"

text \<open>
  The scanner: between tokens, inside a string, after a backslash, inside the four hex
  digits of \<open>\u\<close>, or inside a literal word (a number, \<open>true\<close>, \<open>false\<close>, \<open>null\<close>).
  The accumulators are in reverse.
\<close>

datatype lexmode =
    LIdle
  | LString string
  | LEscape string
  | LUnicode string "nat list"
  | LWord string

definition lex_idle :: "char \<Rightarrow> token list \<Rightarrow> (lexmode \<times> token list) option" where
  "lex_idle c toks =
     (if is_ws c then Some (LIdle, toks)
      else case punct c of
             Some t \<Rightarrow> Some (LIdle, t # toks)
           | None \<Rightarrow> if c = CHR 0x22 then Some (LString [], toks) else Some (LWord [c], toks))"

fun lex_step :: "lexmode \<times> token list \<Rightarrow> char \<Rightarrow> (lexmode \<times> token list) option" where
  "lex_step (LIdle, toks) c = lex_idle c toks"
| "lex_step (LString acc, toks) c =
     (if c = CHR 0x22 then Some (LIdle, TScalar (JStr (rev acc)) # toks)
      else if c = CHR 0x5C then Some (LEscape acc, toks)
      else if (of_char c :: nat) < 0x20 then None
      else Some (LString (c # acc), toks))"
| "lex_step (LEscape acc, toks) c =
     (case unescape c of
        Some d \<Rightarrow> Some (LString (d # acc), toks)
      | None \<Rightarrow> if c = CHR ''u'' then Some (LUnicode acc [], toks) else None)"
| "lex_step (LUnicode acc ds, toks) c =
     (case hex_val c of
        None \<Rightarrow> None
      | Some d \<Rightarrow>
          if length ds < 3 then Some (LUnicode acc (d # ds), toks)
          else (case utf8 (foldl (\<lambda>n h. 16 * n + h) 0 (rev (d # ds))) of
                  None \<Rightarrow> None
                | Some bytes \<Rightarrow> Some (LString (rev bytes @ acc), toks)))"
| "lex_step (LWord acc, toks) c =
     (if is_ws c \<or> punct c \<noteq> None
      then (case word_token (rev acc) of
              None \<Rightarrow> None
            | Some t \<Rightarrow> lex_idle c (t # toks))
      else Some (LWord (c # acc), toks))"

fun lex_from :: "lexmode \<times> token list \<Rightarrow> string \<Rightarrow> (lexmode \<times> token list) option" where
  "lex_from st [] = Some st"
| "lex_from st (c # cs) = (case lex_step st c of None \<Rightarrow> None | Some st' \<Rightarrow> lex_from st' cs)"

definition lex_end :: "lexmode \<times> token list \<Rightarrow> token list option" where
  "lex_end st =
     (case st of
        (LIdle, toks) \<Rightarrow> Some (rev toks)
      | (LWord acc, toks) \<Rightarrow> map_option (\<lambda>t. rev (t # toks)) (word_token (rev acc))
      | _ \<Rightarrow> None)"

definition tokenize :: "string \<Rightarrow> token list option" where
  "tokenize s = (case lex_from (LIdle, []) s of None \<Rightarrow> None | Some st \<Rightarrow> lex_end st)"

text \<open>
  The stack machine.  A frame is an open array with its elements so far (in reverse), an
  open object, or an open object with the key whose value is awaited.
\<close>

datatype frame =
    FArr "json list"
  | FObj "(string \<times> json) list"
  | FKey "(string \<times> json) list" string

datatype expect = EValue | EValueOrEnd | EKeyOrEnd | EKey | EColon | EAfter | EDone json

fun push_value :: "json \<Rightarrow> frame list \<Rightarrow> (frame list \<times> expect) option" where
  "push_value v [] = Some ([], EDone v)"
| "push_value v (FArr items # st) = Some (FArr (v # items) # st, EAfter)"
| "push_value v (FKey props k # st) = Some (FObj (set_property k v props) # st, EAfter)"
| "push_value v (FObj props # st) = None"

definition start_value :: "frame list \<Rightarrow> token \<Rightarrow> (frame list \<times> expect) option" where
  "start_value st tok =
     (case tok of
        TScalar v \<Rightarrow> push_value v st
      | TLBrack \<Rightarrow> Some (FArr [] # st, EValueOrEnd)
      | TLBrace \<Rightarrow> Some (FObj [] # st, EKeyOrEnd)
      | _ \<Rightarrow> None)"

definition close_array :: "frame list \<Rightarrow> (frame list \<times> expect) option" where
  "close_array st =
     (case st of FArr items # st' \<Rightarrow> push_value (JArr (rev items)) st' | _ \<Rightarrow> None)"

definition close_object :: "frame list \<Rightarrow> (frame list \<times> expect) option" where
  "close_object st =
     (case st of FObj props # st' \<Rightarrow> push_value (JObj props) st' | _ \<Rightarrow> None)"

definition start_key :: "frame list \<Rightarrow> token \<Rightarrow> (frame list \<times> expect) option" where
  "start_key st tok =
     (case (tok, st) of
        (TScalar (JStr k), FObj props # st') \<Rightarrow> Some (FKey props k # st', EColon)
      | _ \<Rightarrow> None)"

fun parse_step :: "frame list \<times> expect \<Rightarrow> token \<Rightarrow> (frame list \<times> expect) option" where
  "parse_step (st, EValue) tok = start_value st tok"
| "parse_step (st, EValueOrEnd) tok =
     (if tok = TRBrack then close_array st else start_value st tok)"
| "parse_step (st, EKeyOrEnd) tok =
     (if tok = TRBrace then close_object st else start_key st tok)"
| "parse_step (st, EKey) tok = start_key st tok"
| "parse_step (st, EColon) tok = (if tok = TColon then Some (st, EValue) else None)"
| "parse_step (st, EAfter) tok =
     (case tok of
        TComma \<Rightarrow>
          (case st of
             FArr _ # _ \<Rightarrow> Some (st, EValue)
           | FObj _ # _ \<Rightarrow> Some (st, EKey)
           | _ \<Rightarrow> None)
      | TRBrack \<Rightarrow> close_array st
      | TRBrace \<Rightarrow> close_object st
      | _ \<Rightarrow> None)"
| "parse_step (st, EDone v) tok = None"

fun parse_from :: "frame list \<times> expect \<Rightarrow> token list \<Rightarrow> (frame list \<times> expect) option" where
  "parse_from ps [] = Some ps"
| "parse_from ps (t # ts) =
     (case parse_step ps t of None \<Rightarrow> None | Some ps' \<Rightarrow> parse_from ps' ts)"

definition json_parse :: "string \<Rightarrow> json option" where
  "json_parse s =
     (case tokenize s of
        None \<Rightarrow> None
      | Some toks \<Rightarrow>
          (case parse_from ([], EValue) toks of
             Some ([], EDone v) \<Rightarrow> Some v
           | _ \<Rightarrow> None))"

section \<open>The exchange with the generative service\<close>

subsection \<open>Schemas\<close>

text \<open>
  The schema language of the request, as far as the program uses it: an object with its
  properties and the names of the required ones, a number, a string with an optional
  enumeration, an array with the schema of its items; \<open>description\<close> is optional on the
  last three.
\<close>

datatype schema =
    SObject "(string \<times> schema) list" "string list"
  | SNumber "string option"
  | SString "string list option" "string option"
  | SArray schema "string option"

text \<open>
  What it means for a value to match a schema: the type agrees, every required property is
  there, every declared property that is there matches its own schema, a string is one of
  the enumerated ones, every item matches the item schema.  The program makes no such
  test anywhere; the predicate states which responses the specification calls matching.
\<close>

fun conforms :: "schema \<Rightarrow> json \<Rightarrow> bool" where
  "conforms (SObject properties required) (JObj props) =
     (list_all (\<lambda>k. map_of props k \<noteq> None) required \<and>
      list_all (\<lambda>ks. case map_of props (fst ks) of
                         None \<Rightarrow> True
                       | Some v \<Rightarrow> conforms (snd ks) v) properties)"
| "conforms (SNumber _) (JNum _) = True"
| "conforms (SString enum _) (JStr s) = (case enum of None \<Rightarrow> True | Some vs \<Rightarrow> s \<in> set vs)"
| "conforms (SArray items _) (JArr vs) = list_all (conforms items) vs"
| "conforms _ _ = False"

text \<open>Following a path of property names, in a value and in a schema.\<close>

fun get_path :: "json \<Rightarrow> string list \<Rightarrow> json option" where
  "get_path v [] = Some v"
| "get_path v (k # ks) = (case get_property v k of None \<Rightarrow> None | Some w \<Rightarrow> get_path w ks)"

fun schema_at :: "schema \<Rightarrow> string list \<Rightarrow> schema option" where
  "schema_at sch [] = Some sch"
| "schema_at (SObject properties required) (k # ks) =
     (case map_of properties k of None \<Rightarrow> None | Some sub \<Rightarrow> schema_at sub ks)"
| "schema_at _ (k # ks) = None"

subsection \<open>Requests, responses, failures\<close>

text \<open>
  A piece of a template literal: text (literal or an interpolated string), or an
  interpolated number, whose decimal form is left to the runtime.
\<close>

datatype frag = Lit string | Num jsnum

text \<open>
  Interpolating a field of type \<open>number | undefined\<close> as it is; \<open>None\<close> is
  \<open>undefined\<close> here (a \<open>null\<close> would print as \<open>null\<close>).
\<close>

definition interpolate_num :: "jsnum option \<Rightarrow> frag" where
  "interpolate_num x = (case x of None \<Rightarrow> Lit ''undefined'' | Some v \<Rightarrow> Num v)"

record GenerateContentConfig =
  responseMimeType :: string
  responseSchema :: schema

record GenerateContentParameters =
  model :: string
  contents :: "frag list"
  config :: GenerateContentConfig

record GenerateContentResponse =
  response_text :: "string option"

text \<open>
  What can be thrown: an \<open>Error\<close> with its message (the program's own, or whatever the
  client throws), or the \<open>SyntaxError\<close> of \<open>JSON.parse\<close>, whose message is the
  runtime's.
\<close>

datatype thrown = Error string | SyntaxError

text \<open>
  The environment: \<open>process.env\<close>, and the client, which is given the key and the
  parameters of \<open>generateContent\<close> and either throws or returns a response.
\<close>

type_synonym env = "string \<Rightarrow> string option"

type_synonym client = "string \<Rightarrow> GenerateContentParameters \<Rightarrow> thrown + GenerateContentResponse"

datatype log = LogText string | LogError string thrown

text \<open>
  One run of the service: what it returns or throws, the calls it made to the client, in
  order, and what it wrote with \<open>console.error\<close>.
\<close>

record run =
  outcome :: "thrown + json"
  calls :: "(string \<times> GenerateContentParameters) list"
  console :: "log list"

subsection \<open>\<open>src/services/geminiService.ts\<close>\<close>

text \<open>\<open>getApiKey\<close>: a missing or empty key is logged and returned as the empty string.\<close>

definition getApiKey :: "env \<Rightarrow> string \<times> log list" where
  "getApiKey e =
     (case e ''API_KEY'' of
        None \<Rightarrow> ([], [LogText ''API Key is missing. Please set process.env.API_KEY.''])
      | Some key \<Rightarrow>
          if key = [] then ([], [LogText ''API Key is missing. Please set process.env.API_KEY.''])
          else (key, []))"

text \<open>\<open>safeNum\<close>: \<open>typeof val === 'number' && !isNaN(val)\<close>, else 0.\<close>

definition safeNum :: "jsnum option \<Rightarrow> jsnum" where
  "safeNum val = (case val of None \<Rightarrow> Fin 0 | Some v \<Rightarrow> if \<not> isNaN v then v else Fin 0)"

text \<open>The local constants of \<open>analyzeCompensation\<close>, as functions of the profile.\<close>

definition monthlyBase :: "UserProfile \<Rightarrow> jsnum" where
  "monthlyBase profile = safeNum (monthlyBaseSalary profile)"

definition monthlyInc :: "UserProfile \<Rightarrow> jsnum" where
  "monthlyInc profile = safeNum (monthlyIncentive profile)"

definition monthlyOver :: "UserProfile \<Rightarrow> jsnum" where
  "monthlyOver profile = safeNum (monthlyOvertime profile)"

definition profitShare :: "UserProfile \<Rightarrow> jsnum" where
  "profitShare profile = safeNum (annualProfitShare profile)"

definition festival :: "UserProfile \<Rightarrow> jsnum" where
  "festival profile = safeNum (festivalBonus profile)"

definition pf :: "UserProfile \<Rightarrow> jsnum" where
  "pf profile = safeNum (providentFund profile)"

definition grat :: "UserProfile \<Rightarrow> jsnum" where
  "grat profile = safeNum (gratuity profile)"

definition annualBaseSalary :: "UserProfile \<Rightarrow> jsnum" where
  "annualBaseSalary profile = jmul (monthlyBase profile) (Fin 12)"

definition annualIncentive :: "UserProfile \<Rightarrow> jsnum" where
  "annualIncentive profile = jmul (monthlyInc profile) (Fin 12)"

definition annualOvertime :: "UserProfile \<Rightarrow> jsnum" where
  "annualOvertime profile = jmul (monthlyOver profile) (Fin 12)"

definition totalComp :: "UserProfile \<Rightarrow> jsnum" where
  "totalComp profile =
     jadd (jadd (jadd (jadd (jadd (jadd
       (annualBaseSalary profile) (annualIncentive profile)) (profitShare profile))
       (annualOvertime profile)) (festival profile)) (pf profile)) (grat profile)"

text \<open>\<open>Array.prototype.join(', ')\<close>.\<close>

fun join_comma :: "string list \<Rightarrow> string" where
  "join_comma [] = []"
| "join_comma [x] = x"
| "join_comma (x # y # ys) = x @ '', '' @ join_comma (y # ys)"

definition benefitsStr :: "UserProfile \<Rightarrow> string" where
  "benefitsStr profile =
     (case benefits profile of
        None \<Rightarrow> ''None listed''
      | Some bs \<Rightarrow> if 0 < length bs then join_comma bs else ''None listed'')"

text \<open>The prompt, line by line as in the source.\<close>

definition prompt :: "UserProfile \<Rightarrow> frag list" where
  \<open>prompt profile =
     [Lit ''\<newline>'',
      Lit ''    Analyze the following professional profile for compensation benchmarking and career progression.\<newline>'',
      Lit ''    \<newline>'',
      Lit ''    Profile Details:\<newline>'',
      Lit ''    - Role: '',
      Lit (or_default (currentRole profile) ''Professional''),
      Lit ''\<newline>'',
      Lit ''    - Experience: '',
      Num (safeNum (yearsExperience profile)),
      Lit '' years\<newline>'',
      Lit ''    - Location: '',
      Lit (or_default (location profile) ''Unknown''),
      Lit ''\<newline>'',
      Lit ''    - Industry: '',
      Lit (or_default (industry profile) ''General''),
      Lit ''\<newline>'',
      Lit ''    - Currency: '',
      Lit (or_default (currency profile) ''USD''),
      Lit ''\<newline>'',
      Lit ''    \<newline>'',
      Lit ''    Compensation Breakdown (Annualized):\<newline>'',
      Lit ''    - Base Salary (Annualized): '',
      Num (annualBaseSalary profile),
      Lit ''\<newline>'',
      Lit ''    - Incentive (Annualized): '',
      Num (annualIncentive profile),
      Lit ''\<newline>'',
      Lit ''    - Profit Share (Annual): '',
      Num (profitShare profile),
      Lit ''\<newline>'',
      Lit ''    - Overtime (Annualized): '',
      Num (annualOvertime profile),
      Lit ''\<newline>'',
      Lit ''    - Festival Bonus: '',
      Num (festival profile),
      Lit ''\<newline>'',
      Lit ''    - Provident Fund: '',
      Num (pf profile),
      Lit ''\<newline>'',
      Lit ''    - Gratuity: '',
      Num (grat profile),
      Lit ''\<newline>'',
      Lit ''    - Total Annual Package: '',
      Num (totalComp profile),
      Lit ''\<newline>'',
      Lit ''    \<newline>'',
      Lit ''    Benefits / Perks:\<newline>'',
      Lit ''    '',
      Lit (benefitsStr profile),
      Lit ''\<newline>'',
      Lit ''    \<newline>'',
      Lit ''    TASK:\<newline>'',
      Lit ''    1. Evaluate if the Current Total Annual Package ('',
      Num (totalComp profile),
      Lit '' '',
      Lit (interpolate (currency profile)),
      Lit '') is fair for the role of "'',
      Lit (interpolate (currentRole profile)),
      Lit ''" with '',
      interpolate_num (yearsExperience profile),
      Lit '' years experience specifically in '',
      Lit (interpolate (location profile)),
      Lit ''.\<newline>'',
      Lit ''    2. Predict the NEXT likely role and the expected salary range for that NEXT role in '',
      Lit (interpolate (location profile)),
      Lit ''.\<newline>'',
      Lit ''    3. Provide negotiation scripts:\<newline>'',
      Lit ''       - "Why You Are Perfect": A persuasive script tailored to their experience level explaining why they are the ideal candidate.\<newline>'',
      Lit ''       - "Why You Are Asking This": A data-backed script justifying the specific salary increase or package they should ask for, referencing market rates and inflation.\<newline>'',
      Lit ''       - "Tips": Actionable, short tips for the negotiation meeting with HR.\<newline>'',
      Lit ''    \<newline>'',
      Lit ''    Provide a strict JSON response.\<newline>'',
      Lit ''  '']\<close>

text \<open>The schema attached to the request.\<close>

definition range_schema :: schema where
  "range_schema =
     SObject [(''min'', SNumber None), (''median'', SNumber None), (''max'', SNumber None)]
             [''min'', ''median'', ''max'']"

definition insights_schema :: schema where
  "insights_schema =
     SObject
       [(''marketAnalysis'',
           SObject
             [(''currentRoleMarketValue'', range_schema),
              (''paymentStatus'',
                 SString (Some [''Underpaid'', ''Fair'', ''Highly Competitive'']) None),
              (''percentile'',
                 SNumber (Some ''Estimated percentile of current pay vs market (0-100)'')),
              (''gapAnalysis'',
                 SString None
                   (Some ''A concise explanation of the salary gap based on location.''))]
             [''currentRoleMarketValue'', ''paymentStatus'', ''percentile'', ''gapAnalysis'']),
        (''nextCareerMove'',
           SObject
             [(''roleTitle'', SString None None),
              (''timeframeYears'', SString None (Some (''e.g. '1-2 years'' @ [CHR 0x27]))),
              (''probabilityScore'', SNumber (Some ''0-100 confidence in this path'')),
              (''salaryRange'', range_schema),
              (''requiredSkills'', SArray (SString None None) None)]
             [''roleTitle'', ''timeframeYears'', ''probabilityScore'', ''salaryRange'',
              ''requiredSkills'']),
        (''negotiation'',
           SObject
             [(''whyYouArePerfect'',
                 SString None
                   (Some ''Script explaining why the user is the perfect candidate.'')),
              (''whyYouDeserveIt'',
                 SString None
                   (Some ''Script explaining why they are asking for this specific compensation.'')),
              (''tips'',
                 SArray (SString None None) (Some ''3-4 short, bulleted actionable tips.''))]
             [''whyYouArePerfect'', ''whyYouDeserveIt'', ''tips'']),
        (''verdictColor'',
           SString None
             (Some ''A hex color code representing the status (Red/Yellow/Green)''))]
       [''marketAnalysis'', ''nextCareerMove'', ''negotiation'', ''verdictColor'']"

definition request :: "UserProfile \<Rightarrow> GenerateContentParameters" where
  "request profile =
     \<lparr>model = ''gemini-2.5-flash'',
      contents = prompt profile,
      config = \<lparr>responseMimeType = ''application/json'',
                responseSchema = insights_schema\<rparr>\<rparr>"

text \<open>
  \<open>analyzeCompensation\<close>.  Without a key it throws before the client exists.  Otherwise
  it calls the client once; inside the \<open>try\<close>, a text that is there and not empty goes
  through \<open>JSON.parse\<close> and the value is returned under a type assertion, which does
  nothing at run time; no text, or the empty text, returns \<open>null\<close>.  Whatever is thrown
  inside the \<open>try\<close> is logged and thrown again.
\<close>

definition analyzeCompensation ::
  "(string \<Rightarrow> json option) \<Rightarrow> env \<Rightarrow> client \<Rightarrow> UserProfile \<Rightarrow> run" where
  "analyzeCompensation parse e generateContent profile =
     (let (apiKey, logged) = getApiKey e in
      if apiKey = [] then
        \<lparr>outcome = Inl (Error ''MISSING_API_KEY''), calls = [], console = logged\<rparr>
      else
        (let attempt =
               (case generateContent apiKey (request profile) of
                  Inl err \<Rightarrow> Inl err
                | Inr response \<Rightarrow>
                    (case response_text response of
                       None \<Rightarrow> Inr JNull
                     | Some t \<Rightarrow>
                         if t = [] then Inr JNull
                         else (case parse t of
                                 None \<Rightarrow> Inl SyntaxError
                               | Some v \<Rightarrow> Inr v)))
         in \<lparr>outcome = attempt,
             calls = [(apiKey, request profile)],
             console =
               (case attempt of
                  Inl err \<Rightarrow> logged @ [LogError ''Error fetching Gemini analysis:'' err]
                | Inr _ \<Rightarrow> logged)\<rparr>))"

subsection \<open>\<open>handleAnalysis\<close> of \<open>src/App.tsx\<close>\<close>

record AppState =
  isLoading :: bool
  results :: "json option"
  userProfile :: "UserProfile option"
  error :: "string option"

text \<open>The message of a thrown value, where the model knows it.\<close>

fun message :: "thrown \<Rightarrow> string option" where
  "message (Error m) = Some m"
| "message SyntaxError = None"

text \<open>The three texts \<open>handleAnalysis\<close> can put in \<open>error\<close>.\<close>

definition msg_empty :: string where
  "msg_empty = ''Could not generate analysis. Please try again.''"

definition msg_missing_key :: string where
  "msg_missing_key =
     ''API Key is missing. Please configure your Vercel/Environment variables with 'API_KEY''
     @ [CHR 0x27, CHR ''.'']"

definition msg_failed :: string where
  "msg_failed = ''Analysis failed. Please check your internet connection and try again.''"

text \<open>
  \<open>handleAnalysis\<close>: the state after the \<open>finally\<close>.  A truthy result is stored; a falsy
  one and the two kinds of thrown value each set their own message.  The message of a
  \<open>SyntaxError\<close> is the runtime's and is taken to differ from \<open>MISSING_API_KEY\<close>.
\<close>

definition handleAnalysis ::
  "(string \<Rightarrow> json option) \<Rightarrow> env \<Rightarrow> client \<Rightarrow> AppState \<Rightarrow> UserProfile \<Rightarrow> AppState" where
  "handleAnalysis parse e generateContent s profile =
     (let s1 = s\<lparr>isLoading := True, error := None, userProfile := Some profile\<rparr>;
          s2 = (case outcome (analyzeCompensation parse e generateContent profile) of
                  Inr data \<Rightarrow>
                    if truthy data then s1\<lparr>results := Some data\<rparr>
                    else s1\<lparr>error := Some msg_empty\<rparr>
                | Inl err \<Rightarrow>
                    if message err = Some ''MISSING_API_KEY''
                    then s1\<lparr>error := Some msg_missing_key\<rparr>
                    else s1\<lparr>error := Some msg_failed\<rparr>)
      in s2\<lparr>isLoading := False\<rparr>)"

subsection \<open>The service with the entry-level mode\<close>

text \<open>
  The copy of the service that knows the entry-level flag.  \<open>getApiKey\<close>, \<open>safeNum\<close>
  and the totals are the same; the prompt is one of two templates, and the schema has one
  more enumerated status and the \<open>switchChecklist\<close>.
\<close>

definition prompt_modes :: "UserProfile \<Rightarrow> frag list" where
  \<open>prompt_modes profile =
     (if isEntryLevel profile then
        [Lit ''\<newline>'',
         Lit ''      Act as an Inspiring Career Mentor and Market Analyst for Fresh Graduates.\<newline>'',
         Lit ''      Analyze this Entry-Level profile.\<newline>'',
         Lit ''      \<newline>'',
         Lit ''      Profile:\<newline>'',
         Lit ''      - Target Role: '',
         Lit (or_default (currentRole profile) ''Not Specified''),
         Lit ''\<newline>'',
         Lit ''      - Education: '',
         Lit (or_default (education profile) ''Not Specified''),
         Lit ''\<newline>'',
         Lit ''      - Key Skills: '',
         Lit (or_default (userSkills profile) ''Not Specified''),
         Lit ''\<newline>'',
         Lit ''      - Key Projects/Thesis: "'',
         Lit (or_default (projectDetails profile) ''None listed''),
         Lit ''"\<newline>'',
         Lit ''      - Location: '',
         Lit (or_default (location profile) ''Unknown''),
         Lit ''\<newline>'',
         Lit ''      - Industry: '',
         Lit (or_default (industry profile) ''General''),
         Lit ''\<newline>'',
         Lit ''      - Currency: '',
         Lit (or_default (currency profile) ''USD''),
         Lit ''\<newline>'',
         Lit ''      - User's Expected Monthly Salary: '',
         Num (or_zero (expectedSalary profile)),
         Lit ''\<newline>'',
         Lit ''\<newline>'',
         Lit ''      TASK:\<newline>'',
         Lit ''      1. REAL-TIME MARKET DATA: Estimate the *actual* Entry-Level salary range (Annual) for this role in this location based on platforms like Glassdoor/LinkedIn/Levels.fyi.\<newline>'',
         Lit ''      2. PROJECT VALUATION: In 'gapAnalysis', specifically analyze their Project/Thesis. How does this project translate to real-world value? (e.g., "Your thesis on AI shows you can handle complex data...").\<newline>'',
         Lit ''      3. GROWTH MAP: Instead of "Next Role", predict where they could be in 2 years (e.g. "Mid-Level Engineer").\<newline>'',
         Lit ''      4. SKILL GAP: List 3-5 "Money-Making Skills" they should add immediately to increase their value.\<newline>'',
         Lit ''      5. INTERVIEW PITCH: Create a script on how to SELL their Project/Thesis during an interview to negotiate a higher salary.\<newline>'',
         Lit ''         - Map "whyYouArePerfect" to "How to explain your Project's Impact".\<newline>'',
         Lit ''         - Map "whyYouDeserveIt" to "Why your skills define your value, not your experience".\<newline>'',
         Lit ''\<newline>'',
         Lit ''      Provide a strict JSON response conforming to the schema.\<newline>'',
         Lit ''    '']
      else
        [Lit ''\<newline>'',
         Lit ''      Act as an Expert Executive Headhunter and Senior Compensation Data Scientist. \<newline>'',
         Lit ''      Analyze the following EXPERIENCED profile using REAL-TIME market data contexts for late 2024/2025.\<newline>'',
         Lit ''      \<newline>'',
         Lit ''      User Profile:\<newline>'',
         Lit ''      - Role: '',
         Lit (or_default (currentRole profile) ''Professional''),
         Lit ''\<newline>'',
         Lit ''      - Experience: '',
         Num (safeNum (yearsExperience profile)),
         Lit '' years\<newline>'',
         Lit ''      - Location: '',
         Lit (or_default (location profile) ''Unknown''),
         Lit '' (Factor in cost of living and local market demand)\<newline>'',
         Lit ''      - Industry: '',
         Lit (or_default (industry profile) ''General''),
         Lit ''\<newline>'',
         Lit ''      - Currency: '',
         Lit (or_default (currency profile) ''USD''),
         Lit ''\<newline>'',
         Lit ''      \<newline>'',
         Lit ''      Total Annual Compensation: '',
         Num (totalComp profile),
         Lit ''\<newline>'',
         Lit ''      \<newline>'',
         Lit ''      TASK:\<newline>'',
         Lit ''      1. ACCURATE MARKET ANALYSIS: Compare this user against the *actual* market rates. Be precise.\<newline>'',
         Lit ''      2. CAREER LADDER PREDICTION: Identify the exact next logical role. Not just a generic step, but the industry-standard promotion title.\<newline>'',
         Lit ''      3. CHECKLIST FOR SWITCHING: Generate 5 critical, specific things this user must check in their offer letter or interview for the NEXT role.\<newline>'',
         Lit ''      4. NEGOTIATION SCRIPT: Create a data-backed argument for why they are ready for this next step.\<newline>'',
         Lit ''      \<newline>'',
         Lit ''      Provide a strict JSON response conforming to the schema.\<newline>'',
         Lit ''    ''])\<close>

definition insights_schema_modes :: schema where
  "insights_schema_modes =
     SObject
       [(''marketAnalysis'',
           SObject
             [(''currentRoleMarketValue'', range_schema),
              (''paymentStatus'',
                 SString (Some [''Underpaid'', ''Fair'', ''Highly Competitive'', ''Entry Level''])
                   None),
              (''percentile'', SNumber None),
              (''gapAnalysis'',
                 SString None
                   (Some ''For newbies: Project Valuation & Employability Sentiment''))]
             [''currentRoleMarketValue'', ''paymentStatus'', ''percentile'', ''gapAnalysis'']),
        (''nextCareerMove'',
           SObject
             [(''roleTitle'', SString None None),
              (''timeframeYears'', SString None None),
              (''probabilityScore'', SNumber None),
              (''salaryRange'', range_schema),
              (''requiredSkills'',
                 SArray (SString None None) (Some ''For newbies: High demand skills to learn'')),
              (''switchChecklist'',
                 SArray (SString None None)
                   (Some ''Specific things to verify before accepting the job offer''))]
             [''roleTitle'', ''timeframeYears'', ''probabilityScore'', ''salaryRange'',
              ''requiredSkills'', ''switchChecklist'']),
        (''negotiation'',
           SObject
             [(''whyYouArePerfect'', SString None None),
              (''whyYouDeserveIt'', SString None None),
              (''tips'', SArray (SString None None) None)]
             [''whyYouArePerfect'', ''whyYouDeserveIt'', ''tips'']),
        (''verdictColor'', SString None None)]
       [''marketAnalysis'', ''nextCareerMove'', ''negotiation'', ''verdictColor'']"

definition request_modes :: "UserProfile \<Rightarrow> GenerateContentParameters" where
  "request_modes profile =
     \<lparr>model = ''gemini-2.5-flash'',
      contents = prompt_modes profile,
      config = \<lparr>responseMimeType = ''application/json'',
                responseSchema = insights_schema_modes\<rparr>\<rparr>"

definition analyzeCompensation_modes ::
  "(string \<Rightarrow> json option) \<Rightarrow> env \<Rightarrow> client \<Rightarrow> UserProfile \<Rightarrow> run" where
  "analyzeCompensation_modes parse e generateContent profile =
     (let (apiKey, logged) = getApiKey e in
      if apiKey = [] then
        \<lparr>outcome = Inl (Error ''MISSING_API_KEY''), calls = [], console = logged\<rparr>
      else
        (let attempt =
               (case generateContent apiKey (request_modes profile) of
                  Inl err \<Rightarrow> Inl err
                | Inr response \<Rightarrow>
                    (case response_text response of
                       None \<Rightarrow> Inr JNull
                     | Some t \<Rightarrow>
                         if t = [] then Inr JNull
                         else (case parse t of
                                 None \<Rightarrow> Inl SyntaxError
                               | Some v \<Rightarrow> Inr v)))
         in \<lparr>outcome = attempt,
             calls = [(apiKey, request_modes profile)],
             console =
               (case attempt of
                  Inl err \<Rightarrow> logged @ [LogError ''Error fetching Gemini analysis:'' err]
                | Inr _ \<Rightarrow> logged)\<rparr>))"

section \<open>The feedback modal\<close>

datatype step = Form | Submitting | Success

text \<open>
  The state of the modal.  The rating is set by clicking one of the stars 1 to 5 and
  starts at 0, so it is a natural number.
\<close>

record FeedbackState =
  step :: step
  rating :: nat
  hoverRating :: nat
  email :: string
  missingFields :: string
  improvements :: string

text \<open>The decimal digits of a natural number, as a template literal prints it.\<close>

fun show_nat :: "nat \<Rightarrow> string" where
  "show_nat n =
     (if n < 10 then [char_of (0x30 + n)] else show_nat (n div 10) @ [char_of (0x30 + n mod 10)])"

text \<open>
  \<open>String.prototype.trim\<close> on the ASCII white space (tab, line feed, vertical tab, form
  feed, carriage return, space).
\<close>

definition is_space :: "char \<Rightarrow> bool" where
  "is_space c = (c = CHR '' '' \<or> ((0x09::nat) \<le> of_char c \<and> (of_char c :: nat) \<le> 0x0D))"

definition trim :: "string \<Rightarrow> string" where
  "trim s = rev (dropWhile is_space (rev (dropWhile is_space s)))"

text \<open>
  The payload: the \<open>email\<close> property only for an address that is not blank, a
  \<open>sender_status\<close> otherwise.
\<close>

definition payload :: "FeedbackState \<Rightarrow> json" where
  "payload s =
     JObj ([(''rating'', JNum (Fin (of_nat (rating s)))),
            (''missing_fields'', JStr (missingFields s)),
            (''improvements'', JStr (improvements s)),
            (''_subject'', JStr (''New App Feedback ('' @ show_nat (rating s) @ ''/5 stars)''))]
           @ (if email s \<noteq> [] \<and> 0 < length (trim (email s))
              then [(''email'', JStr (trim (email s)))]
              else [(''sender_status'', JStr ''Anonymous User'')]))"

text \<open>
  \<open>fetch\<close>: the request is a URL, a method, headers and the value that
  \<open>JSON.stringify\<close> serialises as the body.  It rejects, or resolves to a response with
  its \<open>ok\<close> flag and what \<open>response.json()\<close> gives, which may itself throw.
\<close>

record FetchInit =
  fetch_method :: string
  fetch_headers :: "(string \<times> string) list"
  fetch_body :: json

record FetchResponse =
  ok :: bool
  response_json :: "thrown + json"

type_synonym fetch = "string \<Rightarrow> FetchInit \<Rightarrow> thrown + FetchResponse"

datatype feedback_log = FormspreeError json | SendingError thrown

definition FORMSPREE_FORM_ID :: string where
  "FORMSPREE_FORM_ID = ''mnnwkblw''"

definition feedback_request :: "FeedbackState \<Rightarrow> string \<times> FetchInit" where
  "feedback_request s =
     (''https://formspree.io/f/'' @ FORMSPREE_FORM_ID,
      \<lparr>fetch_method = ''POST'',
       fetch_headers = [(''Content-Type'', ''application/json''), (''Accept'', ''application/json'')],
       fetch_body = payload s\<rparr>)"

text \<open>
  What the \<open>try\<close> block does: \<open>Inr ()\<close> when it reaches its end, \<open>Inl\<close> what it throws,
  with what it logged on the way.
\<close>

definition try_send :: "fetch \<Rightarrow> FeedbackState \<Rightarrow> (thrown + unit) \<times> feedback_log list" where
  "try_send fetch s =
     (case fetch (fst (feedback_request s)) (snd (feedback_request s)) of
        Inl err \<Rightarrow> (Inl err, [])
      | Inr response \<Rightarrow>
          if \<not> ok response then
            (case response_json response of
               Inl err \<Rightarrow> (Inl err, [])
             | Inr errorData \<Rightarrow>
                 (Inl (Error ''Failed to send feedback''), [FormspreeError errorData]))
          else (Inr (), []))"

text \<open>
  \<open>handleSubmit\<close>: the steps it sets, in order, the last one being the state it leaves, and
  the log.  Both the end of the \<open>try\<close> and the \<open>catch\<close> set \<open>success\<close>.
\<close>

definition handleSubmit ::
  "fetch \<Rightarrow> FeedbackState \<Rightarrow> FeedbackState \<times> step list \<times> feedback_log list" where
  "handleSubmit fetch s =
     (let s1 = s\<lparr>step := Submitting\<rparr> in
      case try_send fetch s of
        (Inr _, logged) \<Rightarrow> (s1\<lparr>step := Success\<rparr>, [Submitting, Success], logged)
      | (Inl err, logged) \<Rightarrow>
          (s1\<lparr>step := Success\<rparr>, [Submitting, Success], logged @ [SendingError err]))"

section \<open>Notions of the specification\<close>

text \<open>
  The salary-range invariant in the words of the specification: the three values are
  there, none is negative, and \<open>min \<le> median \<le> max\<close>.  The program has no counterpart
  of it.
\<close>

definition spec_range_invariant :: "json \<Rightarrow> bool" where
  "spec_range_invariant r =
     (case (get_property r ''min'', get_property r ''median'', get_property r ''max'') of
        (Some (JNum (Fin a)), Some (JNum (Fin b)), Some (JNum (Fin c))) \<Rightarrow>
          0 \<le> a \<and> a \<le> b \<and> b \<le> c
      | _ \<Rightarrow> False)"

text \<open>
  A compensation field is plain when it is absent, NaN or a finite number; its amount is
  then the number, or zero.
\<close>

definition plain :: "jsnum option \<Rightarrow> bool" where
  "plain x = (x \<noteq> Some PInf \<and> x \<noteq> Some NInf)"

definition amount :: "jsnum option \<Rightarrow> rat" where
  "amount x = (case x of Some (Fin r) \<Rightarrow> r | _ \<Rightarrow> 0)"

section \<open>Sample inputs\<close>

text \<open>
  An experienced profile as the form produces it: one amount typed, one field cleared
  (\<open>parseFloat('')\<close> is NaN), the others untouched.
\<close>

definition example_profile :: UserProfile where
  "example_profile =
     \<lparr>currentRole = Some ''Software Engineer'',
      yearsExperience = Some (Fin 5),
      location = Some ''Dhaka'',
      industry = Some ''Technology'',
      currency = Some ''BDT'',
      monthlyBaseSalary = Some (Fin 5000),
      monthlyIncentive = Some NaN,
      monthlyOvertime = None,
      annualProfitShare = Some (Fin 0),
      festivalBonus = Some (Fin 10000),
      providentFund = None,
      gratuity = None,
      benefits = Some [''Health Insurance'', ''Remote Work''],
      isEntryLevel = False,
      education = None,
      userSkills = None,
      projectDetails = None,
      expectedSalary = None\<rparr>"


text \<open>A profile with every compensation field absent, and one with an unknown currency.\<close>

definition blank_profile :: UserProfile where
  "blank_profile =
     \<lparr>currentRole = Some ''Junior UX Designer'',
      yearsExperience = Some (Fin 0),
      location = Some ''Dhaka'',
      industry = Some ''Design'',
      currency = Some ''USD'',
      monthlyBaseSalary = None,
      monthlyIncentive = None,
      monthlyOvertime = None,
      annualProfitShare = None,
      festivalBonus = None,
      providentFund = None,
      gratuity = None,
      benefits = Some [],
      isEntryLevel = True,
      education = Some ''BSc in Computer Science'',
      userSkills = Some ''Figma, CSS'',
      projectDetails = Some ''Thesis on accessible forms'',
      expectedSalary = Some (Fin 25000)\<rparr>"

definition yen_profile :: UserProfile where
  "yen_profile = blank_profile\<lparr>currency := Some ''JPY''\<rparr>"

text \<open>
  An entry-level profile that differs from \<open>blank_profile\<close> in every field of the
  experienced mode and in no other.
\<close>

definition blank_profile_with_pay :: UserProfile where
  "blank_profile_with_pay =
     blank_profile
       \<lparr>yearsExperience := Some (Fin 7),
        monthlyBaseSalary := Some (Fin 9000),
        monthlyIncentive := Some (Fin 100),
        monthlyOvertime := Some NaN,
        annualProfitShare := Some (Fin 2000),
        festivalBonus := Some (Fin 3000),
        providentFund := Some (Fin 400),
        gratuity := Some (Fin 50),
        benefits := Some [''Health Insurance'']\<rparr>"

text \<open>
  The entry-level profile as the form submits it: switching to the entry-level mode sets
  the monthly base salary to 0, and the other amounts were never typed.
\<close>

definition entry_form_profile :: UserProfile where
  "entry_form_profile =
     blank_profile
       \<lparr>monthlyBaseSalary := Some (Fin 0),
        monthlyIncentive := Some (Fin 0),
        monthlyOvertime := Some (Fin 0),
        annualProfitShare := Some (Fin 0),
        festivalBonus := Some (Fin 0),
        providentFund := Some (Fin 0),
        gratuity := Some (Fin 0)\<rparr>"

definition env_with_key :: env where
  "env_with_key = [''API_KEY'' \<mapsto> ''test-key'']"

definition env_without_key :: env where
  "env_without_key = Map.empty"

definition client_returning :: "string option \<Rightarrow> client" where
  "client_returning t = (\<lambda>key params. Inr \<lparr>response_text = t\<rparr>)"

definition initial_state :: AppState where
  "initial_state = \<lparr>isLoading = False, results = None, userProfile = None, error = None\<rparr>"

text \<open>A response that matches the schema of \<open>src/services/geminiService.ts\<close>.\<close>

definition matching_text :: string where
  \<open>matching_text = ''{"marketAnalysis":{"currentRoleMarketValue":{"min":60000,"median":80000,"max":100000},"paymentStatus":"Fair","percentile":55,"gapAnalysis":"In line with the market."},"nextCareerMove":{"roleTitle":"Senior Engineer","timeframeYears":"1-2 years","probabilityScore":70,"salaryRange":{"min":90000,"median":120000,"max":150000},"requiredSkills":["System design"]},"negotiation":{"whyYouArePerfect":"Track record.","whyYouDeserveIt":"Market data.","tips":["Be specific"]},"verdictColor":"#22c55e"}''\<close>

definition matching_value :: json where
  "matching_value =
     JObj [(''marketAnalysis'',
              JObj [(''currentRoleMarketValue'',
                       JObj [(''min'', JNum (Fin 60000)), (''median'', JNum (Fin 80000)),
                             (''max'', JNum (Fin 100000))]),
                    (''paymentStatus'', JStr ''Fair''),
                    (''percentile'', JNum (Fin 55)),
                    (''gapAnalysis'', JStr ''In line with the market.'')]),
           (''nextCareerMove'',
              JObj [(''roleTitle'', JStr ''Senior Engineer''),
                    (''timeframeYears'', JStr ''1-2 years''),
                    (''probabilityScore'', JNum (Fin 70)),
                    (''salaryRange'',
                       JObj [(''min'', JNum (Fin 90000)), (''median'', JNum (Fin 120000)),
                             (''max'', JNum (Fin 150000))]),
                    (''requiredSkills'', JArr [JStr ''System design''])]),
           (''negotiation'',
              JObj [(''whyYouArePerfect'', JStr ''Track record.''),
                    (''whyYouDeserveIt'', JStr ''Market data.''),
                    (''tips'', JArr [JStr ''Be specific''])]),
           (''verdictColor'', JStr ''#22c55e'')]"

text \<open>Valid JSON without the required \<open>nextCareerMove\<close>.\<close>

definition missing_move_text :: string where
  \<open>missing_move_text = ''{"marketAnalysis":{"currentRoleMarketValue":{"min":60000,"median":80000,"max":100000},"paymentStatus":"Fair","percentile":55,"gapAnalysis":"In line."},"negotiation":{"whyYouArePerfect":"Track record.","whyYouDeserveIt":"Market data.","tips":[]},"verdictColor":"#22c55e"}''\<close>

definition missing_move_value :: json where
  "missing_move_value =
     JObj [(''marketAnalysis'',
              JObj [(''currentRoleMarketValue'',
                       JObj [(''min'', JNum (Fin 60000)), (''median'', JNum (Fin 80000)),
                             (''max'', JNum (Fin 100000))]),
                    (''paymentStatus'', JStr ''Fair''),
                    (''percentile'', JNum (Fin 55)),
                    (''gapAnalysis'', JStr ''In line.'')]),
           (''negotiation'',
              JObj [(''whyYouArePerfect'', JStr ''Track record.''),
                    (''whyYouDeserveIt'', JStr ''Market data.''),
                    (''tips'', JArr [])]),
           (''verdictColor'', JStr ''#22c55e'')]"

text \<open>
  A response that matches the schema and whose first range has its minimum above its
  median and a negative maximum.
\<close>

definition inverted_range_text :: string where
  \<open>inverted_range_text = ''{"marketAnalysis":{"currentRoleMarketValue":{"min":100000,"median":80000,"max":-5},"paymentStatus":"Fair","percentile":55,"gapAnalysis":"x"},"nextCareerMove":{"roleTitle":"Lead","timeframeYears":"1","probabilityScore":70,"salaryRange":{"min":3,"median":2,"max":1},"requiredSkills":[]},"negotiation":{"whyYouArePerfect":"a","whyYouDeserveIt":"b","tips":[]},"verdictColor":"red"}''\<close>

definition inverted_range_value :: json where
  "inverted_range_value =
     JObj [(''marketAnalysis'',
              JObj [(''currentRoleMarketValue'',
                       JObj [(''min'', JNum (Fin 100000)), (''median'', JNum (Fin 80000)),
                             (''max'', JNum (Fin (- 5)))]),
                    (''paymentStatus'', JStr ''Fair''),
                    (''percentile'', JNum (Fin 55)),
                    (''gapAnalysis'', JStr ''x'')]),
           (''nextCareerMove'',
              JObj [(''roleTitle'', JStr ''Lead''),
                    (''timeframeYears'', JStr ''1''),
                    (''probabilityScore'', JNum (Fin 70)),
                    (''salaryRange'',
                       JObj [(''min'', JNum (Fin 3)), (''median'', JNum (Fin 2)),
                             (''max'', JNum (Fin 1))]),
                    (''requiredSkills'', JArr [])]),
           (''negotiation'',
              JObj [(''whyYouArePerfect'', JStr ''a''),
                    (''whyYouDeserveIt'', JStr ''b''),
                    (''tips'', JArr [])]),
           (''verdictColor'', JStr ''red'')]"

text \<open>Results for the dashboard, given the two medians.\<close>

definition results_with_medians :: "jsnum \<Rightarrow> jsnum \<Rightarrow> CompensationInsights" where
  "results_with_medians market next =
     \<lparr>marketAnalysis =
        \<lparr>currentRoleMarketValue = \<lparr>range_min = market, range_median = market, range_max = market\<rparr>,
         paymentStatus = ''Fair'',
         percentile = Fin 50,
         gapAnalysis = ''In line with the market.''\<rparr>,
      nextCareerMove =
        \<lparr>roleTitle = ''Senior Engineer'',
         timeframeYears = ''1-2 years'',
         probabilityScore = Fin 70,
         salaryRange = \<lparr>range_min = next, range_median = next, range_max = next\<rparr>,
         requiredSkills = [''System design''],
         switchChecklist = None\<rparr>,
      negotiation =
        \<lparr>whyYouArePerfect = ''Track record.'',
         whyYouDeserveIt = ''Market data.'',
         tips = [''Be specific'']\<rparr>,
      verdictColor = ''#22c55e''\<rparr>"

text \<open>A profile whose only pay is an annual profit share of 100000.\<close>

definition paid_profile :: UserProfile where
  "paid_profile = example_profile
     \<lparr>monthlyBaseSalary := None, festivalBonus := None, annualProfitShare := Some (Fin 100000)\<rparr>"

text \<open>Feedback states and three behaviours of \<open>fetch\<close>.\<close>

definition feedback_form :: FeedbackState where
  "feedback_form =
     \<lparr>step = Form, rating = 4, hoverRating = 0, email = ''  '',
      missingFields = ''Stock options'', improvements = []\<rparr>"

definition fetch_offline :: fetch where
  "fetch_offline = (\<lambda>url init. Inl (Error ''Failed to fetch''))"

definition fetch_rejected :: fetch where
  "fetch_rejected =
     (\<lambda>url init. Inr \<lparr>ok = False, response_json = Inr (JObj [(''error'', JStr ''Form not found'')])\<rparr>)"

definition fetch_accepted :: fetch where
  "fetch_accepted = (\<lambda>url init. Inr \<lparr>ok = True, response_json = Inr (JObj [(''ok'', JBool True)])\<rparr>)"

section \<open>Evaluating the reference parser\<close>

lemmas parse_defs =
  json_parse_def tokenize_def lex_end_def lex_idle_def is_ws_def punct_def word_token_def
  parse_number_def parse_exponent_def is_digit_def digits_val_def digit_val_def pow10_def
  start_value_def start_key_def close_array_def close_object_def unescape_def

lemma parse_matching_text: "json_parse matching_text = Some matching_value"
  by (simp add: parse_defs matching_text_def matching_value_def)

lemma parse_missing_move_text: "json_parse missing_move_text = Some missing_move_value"
  by (simp add: parse_defs missing_move_text_def missing_move_value_def)

lemma parse_inverted_range_text: "json_parse inverted_range_text = Some inverted_range_value"
  by (simp add: parse_defs inverted_range_text_def inverted_range_value_def)

lemma parse_not_json: "json_parse ''Not JSON'' = None"
  by (simp add: parse_defs)

lemma parse_empty: "json_parse [] = None"
  by (simp add: parse_defs)

section \<open>Facts about the building blocks\<close>

lemma getApiKey_missing:
  "e ''API_KEY'' = None \<or> e ''API_KEY'' = Some [] \<Longrightarrow> fst (getApiKey e) = []"
  by (auto simp: getApiKey_def)

lemma getApiKey_present:
  "e ''API_KEY'' = Some key \<Longrightarrow> key \<noteq> [] \<Longrightarrow> getApiKey e = (key, [])"
  by (simp add: getApiKey_def)

lemma outcome_with_key:
  assumes "e ''API_KEY'' = Some key" and "key \<noteq> []"
  shows "outcome (analyzeCompensation parse e generateContent profile) =
           (case generateContent key (request profile) of
              Inl err \<Rightarrow> Inl err
            | Inr response \<Rightarrow>
                (case response_text response of
                   None \<Rightarrow> Inr JNull
                 | Some t \<Rightarrow>
                     if t = [] then Inr JNull
                     else (case parse t of None \<Rightarrow> Inl SyntaxError | Some v \<Rightarrow> Inr v)))"
  using assms by (simp add: analyzeCompensation_def getApiKey_present Let_def)

lemma calls_with_key:
  assumes "e ''API_KEY'' = Some key" and "key \<noteq> []"
  shows "calls (analyzeCompensation parse e generateContent profile) = [(key, request profile)]"
  using assms by (simp add: analyzeCompensation_def getApiKey_present Let_def)

lemma error_after_handleAnalysis:
  "error (handleAnalysis parse e generateContent s profile) =
     (case outcome (analyzeCompensation parse e generateContent profile) of
        Inr data \<Rightarrow> if truthy data then None else Some msg_empty
      | Inl err \<Rightarrow> if message err = Some ''MISSING_API_KEY'' then Some msg_missing_key
                   else Some msg_failed)"
  by (simp add: handleAnalysis_def Let_def split: sum.split)

lemma results_after_handleAnalysis:
  "results (handleAnalysis parse e generateContent s profile) =
     (case outcome (analyzeCompensation parse e generateContent profile) of
        Inr data \<Rightarrow> if truthy data then Some data else results s
      | Inl err \<Rightarrow> results s)"
  by (simp add: handleAnalysis_def Let_def split: sum.split)

lemma messages_distinct:
  "msg_empty \<noteq> msg_failed" "msg_empty \<noteq> msg_missing_key" "msg_missing_key \<noteq> msg_failed"
  by (simp_all add: msg_empty_def msg_failed_def msg_missing_key_def)

lemma env_with_key_lookup: "env_with_key ''API_KEY'' = Some ''test-key''"
  by (simp add: env_with_key_def)

lemma safeNum_not_NaN: "safeNum val \<noteq> NaN"
  by (simp add: safeNum_def isNaN_def split: option.split)

lemma conforms_object_truthy: "conforms (SObject properties required) v \<Longrightarrow> truthy v"
  by (cases v) simp_all

section \<open>The claims\<close>

text \<open>
  C1.  Without a key in the environment (the variable unset, or set to the empty string),
  \<open>analyzeCompensation\<close> throws the error \<open>MISSING_API_KEY\<close> whatever the profile, the
  client is never called, and the caller shows the configuration message, which is neither
  the message of a failed request nor the one of an empty result.
\<close>

theorem missing_key_fails_without_call:
  assumes "e ''API_KEY'' = None \<or> e ''API_KEY'' = Some []"
  shows "outcome (analyzeCompensation parse e generateContent profile)
           = Inl (Error ''MISSING_API_KEY'')
       \<and> calls (analyzeCompensation parse e generateContent profile) = []
       \<and> error (handleAnalysis parse e generateContent s profile) = Some msg_missing_key
       \<and> msg_missing_key \<noteq> msg_failed \<and> msg_missing_key \<noteq> msg_empty"
proof -
  obtain logged where k: "getApiKey e = ([], logged)"
    using assms getApiKey_missing [of e] by (cases "getApiKey e") simp
  have o: "outcome (analyzeCompensation parse e generateContent profile)
             = Inl (Error ''MISSING_API_KEY'')"
    by (simp add: analyzeCompensation_def k)
  have c: "calls (analyzeCompensation parse e generateContent profile) = []"
    by (simp add: analyzeCompensation_def k)
  have m: "error (handleAnalysis parse e generateContent s profile) = Some msg_missing_key"
    by (simp add: error_after_handleAnalysis o)
  from o c m messages_distinct show ?thesis by metis
qed

theorem missing_key_fails_without_call_witness:
  "(env_without_key ''API_KEY'' = None \<or> env_without_key ''API_KEY'' = Some [])
   \<and> outcome (analyzeCompensation json_parse env_without_key
                 (client_returning (Some matching_text)) example_profile)
       = Inl (Error ''MISSING_API_KEY'')
   \<and> calls (analyzeCompensation json_parse env_without_key
               (client_returning (Some matching_text)) example_profile) = []"
proof -
  have h: "env_without_key ''API_KEY'' = None \<or> env_without_key ''API_KEY'' = Some []"
    by (simp add: env_without_key_def)
  show ?thesis
    using h missing_key_fails_without_call
      [where e = env_without_key and parse = json_parse
         and generateContent = "client_returning (Some matching_text)"
         and profile = example_profile and s = initial_state]
    by simp
qed

text \<open>
  C5.  With a key, when the client returns a response without text, \<open>analyzeCompensation\<close>
  returns \<open>null\<close>, which is no thrown value; the one call was made; and the caller stores
  no result and shows the message of the empty result, which differs from both messages
  it shows for a thrown value.
\<close>

theorem no_text_returns_null:
  assumes "e ''API_KEY'' = Some key" and "key \<noteq> []"
    and "generateContent key (request profile) = Inr response"
    and "response_text response = None"
  shows "outcome (analyzeCompensation parse e generateContent profile) = Inr JNull
       \<and> calls (analyzeCompensation parse e generateContent profile) = [(key, request profile)]
       \<and> error (handleAnalysis parse e generateContent s profile) = Some msg_empty
       \<and> results (handleAnalysis parse e generateContent s profile) = results s
       \<and> msg_empty \<noteq> msg_failed \<and> msg_empty \<noteq> msg_missing_key"
proof -
  have o: "outcome (analyzeCompensation parse e generateContent profile) = Inr JNull"
    using assms by (simp add: outcome_with_key)
  have c: "calls (analyzeCompensation parse e generateContent profile) = [(key, request profile)]"
    using assms by (simp add: calls_with_key)
  have m: "error (handleAnalysis parse e generateContent s profile) = Some msg_empty"
    by (simp add: error_after_handleAnalysis o)
  have r: "results (handleAnalysis parse e generateContent s profile) = results s"
    by (simp add: results_after_handleAnalysis o)
  from o c m r messages_distinct show ?thesis by metis
qed

theorem no_text_returns_null_witness:
  "env_with_key ''API_KEY'' = Some ''test-key'' \<and> ''test-key'' \<noteq> []
   \<and> client_returning None ''test-key'' (request example_profile) = Inr \<lparr>response_text = None\<rparr>
   \<and> response_text \<lparr>response_text = None\<rparr> = None
   \<and> outcome (analyzeCompensation json_parse env_with_key (client_returning None)
                 example_profile) = Inr JNull
   \<and> error (handleAnalysis json_parse env_with_key (client_returning None) initial_state
               example_profile) = Some msg_empty"
proof -
  have h1: "env_with_key ''API_KEY'' = Some ''test-key''" by (rule env_with_key_lookup)
  have h2: "''test-key'' \<noteq> []" by simp
  have h3: "client_returning None ''test-key'' (request example_profile)
              = Inr \<lparr>response_text = None\<rparr>"
    by (simp add: client_returning_def)
  have h4: "response_text \<lparr>response_text = None\<rparr> = None" by simp
  show ?thesis
    using h1 h2 h3 h4 no_text_returns_null
      [where e = env_with_key and key = "''test-key''" and parse = json_parse
         and generateContent = "client_returning None" and profile = example_profile
         and response = "\<lparr>response_text = None\<rparr>" and s = initial_state]
    by simp
qed

text \<open>
  C6.  With a key, when the text of the response is not empty, parses, and the parsed value
  matches the declared schema, \<open>analyzeCompensation\<close> returns exactly the parsed value and
  the caller stores exactly that value as its results.
\<close>

theorem matching_response_returned_unmodified:
  assumes "e ''API_KEY'' = Some key" and "key \<noteq> []"
    and "generateContent key (request profile) = Inr response"
    and "response_text response = Some t" and "t \<noteq> []"
    and "parse t = Some v" and "conforms insights_schema v"
  shows "outcome (analyzeCompensation parse e generateContent profile) = Inr v
       \<and> results (handleAnalysis parse e generateContent s profile) = Some v
       \<and> error (handleAnalysis parse e generateContent s profile) = None"
proof -
  have o: "outcome (analyzeCompensation parse e generateContent profile) = Inr v"
    using assms by (simp add: outcome_with_key)
  have t: "truthy v"
    using assms(7) by (simp add: insights_schema_def conforms_object_truthy)
  show ?thesis
    using o t by (simp add: results_after_handleAnalysis error_after_handleAnalysis)
qed

theorem matching_response_returned_unmodified_witness:
  "env_with_key ''API_KEY'' = Some ''test-key'' \<and> ''test-key'' \<noteq> []
   \<and> client_returning (Some matching_text) ''test-key'' (request example_profile)
       = Inr \<lparr>response_text = Some matching_text\<rparr>
   \<and> response_text \<lparr>response_text = Some matching_text\<rparr> = Some matching_text
   \<and> matching_text \<noteq> []
   \<and> json_parse matching_text = Some matching_value
   \<and> conforms insights_schema matching_value
   \<and> outcome (analyzeCompensation json_parse env_with_key
                 (client_returning (Some matching_text)) example_profile) = Inr matching_value
   \<and> results (handleAnalysis json_parse env_with_key (client_returning (Some matching_text))
                 initial_state example_profile) = Some matching_value"
proof -
  have h1: "env_with_key ''API_KEY'' = Some ''test-key''" by (rule env_with_key_lookup)
  have h2: "''test-key'' \<noteq> []" by simp
  have h3: "client_returning (Some matching_text) ''test-key'' (request example_profile)
              = Inr \<lparr>response_text = Some matching_text\<rparr>"
    by (simp add: client_returning_def)
  have h4: "response_text \<lparr>response_text = Some matching_text\<rparr> = Some matching_text"
    by simp
  have h5: "matching_text \<noteq> []" by (simp add: matching_text_def)
  have h6: "json_parse matching_text = Some matching_value" by (rule parse_matching_text)
  have h7: "conforms insights_schema matching_value"
    by (simp add: insights_schema_def range_schema_def matching_value_def)
  show ?thesis
    using h1 h2 h3 h4 h5 h6 h7 matching_response_returned_unmodified
      [where e = env_with_key and key = "''test-key''" and parse = json_parse
         and generateContent = "client_returning (Some matching_text)"
         and profile = example_profile and t = matching_text and v = matching_value
         and response = "\<lparr>response_text = Some matching_text\<rparr>" and s = initial_state]
    by simp
qed

text \<open>
  C2, as the claim states it, fails: the text \<open>missing_move_text\<close> is valid JSON, the
  value it denotes has no \<open>nextCareerMove\<close> and so does not match the declared schema,
  and \<open>analyzeCompensation\<close> returns that value instead of throwing.
\<close>

theorem nonmatching_json_is_returned:
  "json_parse missing_move_text = Some missing_move_value
   \<and> get_property missing_move_value ''nextCareerMove'' = None
   \<and> \<not> conforms insights_schema missing_move_value
   \<and> outcome (analyzeCompensation json_parse env_with_key
                 (client_returning (Some missing_move_text)) example_profile)
       = Inr missing_move_value"
proof -
  have p: "json_parse missing_move_text = Some missing_move_value"
    by (rule parse_missing_move_text)
  have g: "get_property missing_move_value ''nextCareerMove'' = None"
    by (simp add: missing_move_value_def)
  have n: "\<not> conforms insights_schema missing_move_value"
    by (simp add: insights_schema_def missing_move_value_def)
  have t: "missing_move_text \<noteq> []" by (simp add: missing_move_text_def)
  have o: "outcome (analyzeCompensation json_parse env_with_key
                      (client_returning (Some missing_move_text)) example_profile)
             = Inr missing_move_value"
    using p t env_with_key_lookup
    by (simp add: outcome_with_key [where e = env_with_key and key = "''test-key''"]
                  client_returning_def)
  from p g n o show ?thesis by simp
qed

text \<open>
  C2, amended.  With a key, when the text of the response is not empty and does not parse,
  \<open>analyzeCompensation\<close> throws the \<open>SyntaxError\<close> of \<open>JSON.parse\<close> again, after
  logging it, and the caller shows the message of a failed analysis; when the text
  parses, the value is returned without any test against the schema.
\<close>

theorem unparseable_text_is_rethrown:
  assumes "e ''API_KEY'' = Some key" and "key \<noteq> []"
    and "generateContent key (request profile) = Inr response"
    and "response_text response = Some t" and "t \<noteq> []"
  shows "(parse t = None \<longrightarrow>
            outcome (analyzeCompensation parse e generateContent profile) = Inl SyntaxError
          \<and> LogError ''Error fetching Gemini analysis:'' SyntaxError
              \<in> set (console (analyzeCompensation parse e generateContent profile))
          \<and> error (handleAnalysis parse e generateContent s profile) = Some msg_failed
          \<and> results (handleAnalysis parse e generateContent s profile) = results s)
       \<and> (\<forall>v. parse t = Some v \<longrightarrow>
            outcome (analyzeCompensation parse e generateContent profile) = Inr v)"
proof -
  have o: "outcome (analyzeCompensation parse e generateContent profile)
             = (case parse t of None \<Rightarrow> Inl SyntaxError | Some v \<Rightarrow> Inr v)"
    using assms by (simp add: outcome_with_key)
  have l: "parse t = None \<Longrightarrow>
             LogError ''Error fetching Gemini analysis:'' SyntaxError
               \<in> set (console (analyzeCompensation parse e generateContent profile))"
    using assms by (simp add: analyzeCompensation_def getApiKey_present Let_def)
  show ?thesis
    using o l by (simp add: error_after_handleAnalysis results_after_handleAnalysis)
qed

theorem unparseable_text_is_rethrown_witness:
  "env_with_key ''API_KEY'' = Some ''test-key'' \<and> ''test-key'' \<noteq> []
   \<and> client_returning (Some ''Not JSON'') ''test-key'' (request example_profile)
       = Inr \<lparr>response_text = Some ''Not JSON''\<rparr>
   \<and> response_text \<lparr>response_text = Some ''Not JSON''\<rparr> = Some ''Not JSON''
   \<and> ''Not JSON'' \<noteq> []
   \<and> json_parse ''Not JSON'' = None
   \<and> outcome (analyzeCompensation json_parse env_with_key
                 (client_returning (Some ''Not JSON'')) example_profile) = Inl SyntaxError
   \<and> error (handleAnalysis json_parse env_with_key (client_returning (Some ''Not JSON''))
               initial_state example_profile) = Some msg_failed"
proof -
  have h1: "env_with_key ''API_KEY'' = Some ''test-key''" by (rule env_with_key_lookup)
  have h2: "''test-key'' \<noteq> []" by simp
  have h3: "client_returning (Some ''Not JSON'') ''test-key'' (request example_profile)
              = Inr \<lparr>response_text = Some ''Not JSON''\<rparr>"
    by (simp add: client_returning_def)
  have h4: "response_text \<lparr>response_text = Some ''Not JSON''\<rparr> = Some ''Not JSON''"
    by simp
  have h5: "''Not JSON'' \<noteq> []" by simp
  have h6: "json_parse ''Not JSON'' = None" by (rule parse_not_json)
  show ?thesis
    using h1 h2 h3 h4 h5 h6 unparseable_text_is_rethrown
      [where e = env_with_key and key = "''test-key''" and parse = json_parse
         and generateContent = "client_returning (Some ''Not JSON'')"
         and profile = example_profile and t = "''Not JSON''"
         and response = "\<lparr>response_text = Some ''Not JSON''\<rparr>" and s = initial_state]
    by simp
qed

text \<open>
  C7, as the claim states it, fails: \<open>inverted_range_text\<close> matches the declared schema,
  its first range has \<open>min = 100000\<close>, \<open>median = 80000\<close> and \<open>max = -5\<close>, and
  \<open>analyzeCompensation\<close> returns it and the caller stores it.
\<close>

theorem inverted_range_is_accepted:
  "conforms insights_schema inverted_range_value
   \<and> get_path inverted_range_value [''marketAnalysis'', ''currentRoleMarketValue'']
       = Some (JObj [(''min'', JNum (Fin 100000)), (''median'', JNum (Fin 80000)),
                     (''max'', JNum (Fin (- 5)))])
   \<and> \<not> spec_range_invariant (JObj [(''min'', JNum (Fin 100000)), (''median'', JNum (Fin 80000)),
                                     (''max'', JNum (Fin (- 5)))])
   \<and> outcome (analyzeCompensation json_parse env_with_key
                 (client_returning (Some inverted_range_text)) example_profile)
       = Inr inverted_range_value
   \<and> results (handleAnalysis json_parse env_with_key
                 (client_returning (Some inverted_range_text)) initial_state example_profile)
       = Some inverted_range_value"
proof -
  have c: "conforms insights_schema inverted_range_value"
    by (simp add: insights_schema_def range_schema_def inverted_range_value_def)
  have g: "get_path inverted_range_value [''marketAnalysis'', ''currentRoleMarketValue'']
             = Some (JObj [(''min'', JNum (Fin 100000)), (''median'', JNum (Fin 80000)),
                           (''max'', JNum (Fin (- 5)))])"
    by (simp add: inverted_range_value_def)
  have n: "\<not> spec_range_invariant (JObj [(''min'', JNum (Fin 100000)),
             (''median'', JNum (Fin 80000)), (''max'', JNum (Fin (- 5)))])"
    by (simp add: spec_range_invariant_def)
  have t: "inverted_range_text \<noteq> []" by (simp add: inverted_range_text_def)
  have o: "outcome (analyzeCompensation json_parse env_with_key
                      (client_returning (Some inverted_range_text)) example_profile)
             = Inr inverted_range_value"
    using parse_inverted_range_text t env_with_key_lookup
    by (simp add: outcome_with_key [where e = env_with_key and key = "''test-key''"]
                  client_returning_def)
  have r: "results (handleAnalysis json_parse env_with_key
                      (client_returning (Some inverted_range_text)) initial_state
                      example_profile) = Some inverted_range_value"
    using o by (simp add: results_after_handleAnalysis inverted_range_value_def)
  from c g n o r show ?thesis by simp
qed

text \<open>
  C7, amended.  For both salary ranges the schema sent with the request is the same
  object schema, which asks for \<open>min\<close>, \<open>median\<close> and \<open>max\<close> to be there and to be
  numbers and for nothing else: every triple of numbers matches it.  The program tests no
  range: with a key, whatever value a non-empty text parses to is returned.
\<close>

theorem ranges_are_not_checked:
  assumes "e ''API_KEY'' = Some key" and "key \<noteq> []"
    and "generateContent key (request profile) = Inr response"
    and "response_text response = Some t" and "t \<noteq> []" and "parse t = Some v"
  shows "outcome (analyzeCompensation parse e generateContent profile) = Inr v
       \<and> schema_at (responseSchema (config (request profile)))
            [''marketAnalysis'', ''currentRoleMarketValue''] = Some range_schema
       \<and> schema_at (responseSchema (config (request profile)))
            [''nextCareerMove'', ''salaryRange''] = Some range_schema
       \<and> (\<forall>a b c. conforms range_schema
                      (JObj [(''min'', JNum a), (''median'', JNum b), (''max'', JNum c)]))"
proof -
  have o: "outcome (analyzeCompensation parse e generateContent profile) = Inr v"
    using assms by (simp add: outcome_with_key)
  have s1: "schema_at (responseSchema (config (request profile)))
              [''marketAnalysis'', ''currentRoleMarketValue''] = Some range_schema"
    by (simp add: request_def insights_schema_def)
  have s2: "schema_at (responseSchema (config (request profile)))
              [''nextCareerMove'', ''salaryRange''] = Some range_schema"
    by (simp add: request_def insights_schema_def)
  have a: "\<forall>a b c. conforms range_schema
                       (JObj [(''min'', JNum a), (''median'', JNum b), (''max'', JNum c)])"
    by (simp add: range_schema_def)
  from o s1 s2 a show ?thesis by simp
qed

theorem ranges_are_not_checked_witness:
  "env_with_key ''API_KEY'' = Some ''test-key'' \<and> ''test-key'' \<noteq> []
   \<and> client_returning (Some inverted_range_text) ''test-key'' (request blank_profile)
       = Inr \<lparr>response_text = Some inverted_range_text\<rparr>
   \<and> response_text \<lparr>response_text = Some inverted_range_text\<rparr> = Some inverted_range_text
   \<and> inverted_range_text \<noteq> []
   \<and> json_parse inverted_range_text = Some inverted_range_value
   \<and> outcome (analyzeCompensation json_parse env_with_key
                 (client_returning (Some inverted_range_text)) blank_profile)
       = Inr inverted_range_value
   \<and> conforms range_schema
        (JObj [(''min'', JNum (Fin 3)), (''median'', JNum (Fin 2)), (''max'', JNum (Fin 1))])"
proof -
  have h1: "env_with_key ''API_KEY'' = Some ''test-key''" by (rule env_with_key_lookup)
  have h2: "''test-key'' \<noteq> []" by simp
  have h3: "client_returning (Some inverted_range_text) ''test-key'' (request blank_profile)
              = Inr \<lparr>response_text = Some inverted_range_text\<rparr>"
    by (simp add: client_returning_def)
  have h4: "response_text \<lparr>response_text = Some inverted_range_text\<rparr>
              = Some inverted_range_text"
    by simp
  have h5: "inverted_range_text \<noteq> []" by (simp add: inverted_range_text_def)
  have h6: "json_parse inverted_range_text = Some inverted_range_value"
    by (rule parse_inverted_range_text)
  show ?thesis
    using h1 h2 h3 h4 h5 h6 ranges_are_not_checked
      [where e = env_with_key and key = "''test-key''" and parse = json_parse
         and generateContent = "client_returning (Some inverted_range_text)"
         and profile = blank_profile and t = inverted_range_text and v = inverted_range_value
         and response = "\<lparr>response_text = Some inverted_range_text\<rparr>"]
    by simp
qed

text \<open>
  C3 at the failing input.  The profile \<open>entry_form_profile\<close> has no current pay, the
  market median is 80000 and the next median is 120000: the second example of the claim.
  In the copy of the dashboard under \<open>src/components\<close>, the one \<open>src/App.tsx\<close> imports,
  \<open>growthPercentage\<close> has no second branch, divides by the current annual compensation,
  which is zero, and is \<open>Infinity\<close>.  The copy with the entry-level mode takes the market
  median as the baseline at the same input and gives 50.
\<close>

theorem growth_without_fallback_is_infinite:
  "currentAnnual entry_form_profile = Fin 0
   \<and> targetEntryAnnual (results_with_medians (Fin 80000) (Fin 120000)) = Fin 80000
   \<and> nextAnnualMedian (results_with_medians (Fin 80000) (Fin 120000)) = Fin 120000
   \<and> growthPercentage_components (results_with_medians (Fin 80000) (Fin 120000))
        entry_form_profile = PInf
   \<and> growthPercentage (results_with_medians (Fin 80000) (Fin 120000)) entry_form_profile
       = Fin 50"
proof -
  have c: "currentAnnual entry_form_profile = Fin 0"
    by (simp add: currentAnnual_def entry_form_profile_def or_zero_def truthy_num_def)
  have m: "targetEntryAnnual (results_with_medians (Fin 80000) (Fin 120000)) = Fin 80000"
    by (simp add: targetEntryAnnual_def results_with_medians_def)
  have n: "nextAnnualMedian (results_with_medians (Fin 80000) (Fin 120000)) = Fin 120000"
    by (simp add: nextAnnualMedian_def results_with_medians_def)
  have old: "growthPercentage_components (results_with_medians (Fin 80000) (Fin 120000))
               entry_form_profile = PInf"
    by (simp add: growthPercentage_components_def c n jsub_def inf_signed_def)
  have new: "growthPercentage (results_with_medians (Fin 80000) (Fin 120000))
               entry_form_profile = Fin 50"
    by (simp add: growthPercentage_def c m n jsub_def)
  from c m n old new show ?thesis by simp
qed

text \<open>
  The second branch of the copy with the entry-level mode divides by the market median
  without a test: with no current pay and a market median of zero it is \<open>Infinity\<close> too.
\<close>

lemma growth_is_infinite_for_zero_median:
  "currentAnnual blank_profile = Fin 0
   \<and> targetEntryAnnual (results_with_medians (Fin 0) (Fin 120000)) = Fin 0
   \<and> nextAnnualMedian (results_with_medians (Fin 0) (Fin 120000)) = Fin 120000
   \<and> growthPercentage (results_with_medians (Fin 0) (Fin 120000)) blank_profile = PInf"
  by (simp add: growthPercentage_def currentAnnual_def targetEntryAnnual_def
        nextAnnualMedian_def results_with_medians_def blank_profile_def or_zero_def
        jsub_def inf_signed_def)

text \<open>
  The first example of the claim, a current annual compensation of 100000 and a next
  median of 150000, is 50 in both copies.
\<close>

lemma growth_first_example:
  "currentAnnual paid_profile = Fin 100000
   \<and> growthPercentage (results_with_medians (Fin 80000) (Fin 150000)) paid_profile = Fin 50
   \<and> growthPercentage_components (results_with_medians (Fin 80000) (Fin 150000)) paid_profile
       = Fin 50"
proof -
  have c: "currentAnnual paid_profile = Fin 100000"
    by (simp add: currentAnnual_def paid_profile_def example_profile_def or_zero_def
          truthy_num_def)
  have n: "nextAnnualMedian (results_with_medians (Fin 80000) (Fin 150000)) = Fin 150000"
    by (simp add: nextAnnualMedian_def results_with_medians_def)
  show ?thesis
    by (simp add: growthPercentage_def growthPercentage_components_def c n jsub_def)
qed

text \<open>
  C8.  The currency symbol depends on the currency code only, and is the dollar sign for
  USD, the euro sign for EUR, the pound sign for GBP, the taka sign for BDT, the rupee
  sign for INR, and the dollar sign for every other code and for no code at all.
\<close>

theorem currency_symbol_table:
  "(currency profile = Some ''USD'' \<longrightarrow> currencySymbol profile = ''$'')
   \<and> (currency profile = Some ''EUR'' \<longrightarrow>
        currencySymbol profile = [CHR 0xE2, CHR 0x82, CHR 0xAC])
   \<and> (currency profile = Some ''GBP'' \<longrightarrow> currencySymbol profile = [CHR 0xC2, CHR 0xA3])
   \<and> (currency profile = Some ''BDT'' \<longrightarrow>
        currencySymbol profile = [CHR 0xE0, CHR 0xA7, CHR 0xB3])
   \<and> (currency profile = Some ''INR'' \<longrightarrow>
        currencySymbol profile = [CHR 0xE2, CHR 0x82, CHR 0xB9])
   \<and> (currency profile \<notin> {Some ''USD'', Some ''EUR'', Some ''GBP'', Some ''BDT'', Some ''INR''}
        \<longrightarrow> currencySymbol profile = ''$'')
   \<and> (currency profile = currency other \<longrightarrow>
        currencySymbol profile = currencySymbol other)"
  by (simp add: currencySymbol_def euro_sign_def pound_sign_def taka_sign_def rupee_sign_def)

theorem currency_symbol_table_witness:
  "currency example_profile = Some ''BDT''
   \<and> currencySymbol example_profile = [CHR 0xE0, CHR 0xA7, CHR 0xB3]
   \<and> currency yen_profile \<notin> {Some ''USD'', Some ''EUR'', Some ''GBP'', Some ''BDT'', Some ''INR''}
   \<and> currencySymbol yen_profile = ''$''
   \<and> currency blank_profile = Some ''USD''
   \<and> currencySymbol blank_profile = ''$''"
proof -
  have h1: "currency example_profile = Some ''BDT''" by (simp add: example_profile_def)
  have h2: "currency yen_profile
              \<notin> {Some ''USD'', Some ''EUR'', Some ''GBP'', Some ''BDT'', Some ''INR''}"
    by (simp add: yen_profile_def)
  have h3: "currency blank_profile = Some ''USD''" by (simp add: blank_profile_def)
  show ?thesis
    using h1 h2 h3
      currency_symbol_table [of example_profile example_profile]
      currency_symbol_table [of yen_profile yen_profile]
      currency_symbol_table [of blank_profile blank_profile]
    by simp
qed

text \<open>
  C9.  Whatever \<open>fetch\<close> does, \<open>handleSubmit\<close> sets the step to \<open>submitting\<close> and then to
  \<open>success\<close>, and leaves the rest of the state as it was.  When \<open>fetch\<close> rejects, or the
  response is not \<open>ok\<close>, the error is logged and nothing else comes of it.
\<close>

theorem feedback_always_ends_in_success:
  "step (fst (handleSubmit fetch s)) = Success
   \<and> fst (handleSubmit fetch s) = s\<lparr>step := Success\<rparr>
   \<and> fst (snd (handleSubmit fetch s)) = [Submitting, Success]
   \<and> (\<forall>err. fetch (fst (feedback_request s)) (snd (feedback_request s)) = Inl err \<longrightarrow>
         snd (snd (handleSubmit fetch s)) = [SendingError err])
   \<and> (\<forall>response errorData.
         fetch (fst (feedback_request s)) (snd (feedback_request s)) = Inr response \<longrightarrow>
         \<not> ok response \<longrightarrow> response_json response = Inr errorData \<longrightarrow>
         snd (snd (handleSubmit fetch s))
           = [FormspreeError errorData, SendingError (Error ''Failed to send feedback'')])"
  by (auto simp: handleSubmit_def try_send_def Let_def split: sum.splits prod.splits)

theorem feedback_always_ends_in_success_witness:
  "fetch_offline (fst (feedback_request feedback_form)) (snd (feedback_request feedback_form))
     = Inl (Error ''Failed to fetch'')
   \<and> step (fst (handleSubmit fetch_offline feedback_form)) = Success
   \<and> snd (snd (handleSubmit fetch_offline feedback_form))
       = [SendingError (Error ''Failed to fetch'')]
   \<and> fetch_rejected (fst (feedback_request feedback_form)) (snd (feedback_request feedback_form))
       = Inr \<lparr>ok = False, response_json = Inr (JObj [(''error'', JStr ''Form not found'')])\<rparr>
   \<and> step (fst (handleSubmit fetch_rejected feedback_form)) = Success
   \<and> snd (snd (handleSubmit fetch_rejected feedback_form))
       = [FormspreeError (JObj [(''error'', JStr ''Form not found'')]),
          SendingError (Error ''Failed to send feedback'')]
   \<and> step (fst (handleSubmit fetch_accepted feedback_form)) = Success"
proof -
  have h1: "fetch_offline (fst (feedback_request feedback_form))
              (snd (feedback_request feedback_form)) = Inl (Error ''Failed to fetch'')"
    by (simp add: fetch_offline_def)
  have h2: "fetch_rejected (fst (feedback_request feedback_form))
              (snd (feedback_request feedback_form))
              = Inr \<lparr>ok = False,
                     response_json = Inr (JObj [(''error'', JStr ''Form not found'')])\<rparr>"
    by (simp add: fetch_rejected_def)
  show ?thesis
    using h1 h2
      feedback_always_ends_in_success [of fetch_offline feedback_form]
      feedback_always_ends_in_success [of fetch_rejected feedback_form]
      feedback_always_ends_in_success [of fetch_accepted feedback_form]
    by simp
qed

text \<open>
  C10.  In the service with the entry-level mode, two entry-level profiles that agree on
  the role, the education, the skills, the project details, the location, the industry,
  the currency and the expected salary give the same request, and so the same run,
  whatever their other fields are; and the configuration of the request, with its schema,
  is the same for every profile.
\<close>

theorem entry_level_request_ignores_pay_fields:
  assumes "isEntryLevel p" and "isEntryLevel q"
    and "currentRole p = currentRole q" and "education p = education q"
    and "userSkills p = userSkills q" and "projectDetails p = projectDetails q"
    and "location p = location q" and "industry p = industry q"
    and "currency p = currency q" and "expectedSalary p = expectedSalary q"
  shows "request_modes p = request_modes q
       \<and> analyzeCompensation_modes parse e generateContent p
           = analyzeCompensation_modes parse e generateContent q
       \<and> config (request_modes p)
           = \<lparr>responseMimeType = ''application/json'', responseSchema = insights_schema_modes\<rparr>
       \<and> config (request_modes p) = config (request_modes other)"
proof -
  have pr: "prompt_modes p = prompt_modes q"
    using assms by (simp add: prompt_modes_def)
  have rq: "request_modes p = request_modes q"
    using pr by (simp add: request_modes_def)
  have run: "analyzeCompensation_modes parse e generateContent p
               = analyzeCompensation_modes parse e generateContent q"
    unfolding analyzeCompensation_modes_def rq by (rule refl)
  have cf: "config (request_modes p)
              = \<lparr>responseMimeType = ''application/json'',
                 responseSchema = insights_schema_modes\<rparr>"
    by (simp add: request_modes_def)
  have same: "config (request_modes p) = config (request_modes other)"
    by (simp add: request_modes_def)
  from rq run cf same show ?thesis by simp
qed

theorem entry_level_request_ignores_pay_fields_witness:
  "isEntryLevel blank_profile \<and> isEntryLevel blank_profile_with_pay
   \<and> currentRole blank_profile = currentRole blank_profile_with_pay
   \<and> education blank_profile = education blank_profile_with_pay
   \<and> userSkills blank_profile = userSkills blank_profile_with_pay
   \<and> projectDetails blank_profile = projectDetails blank_profile_with_pay
   \<and> location blank_profile = location blank_profile_with_pay
   \<and> industry blank_profile = industry blank_profile_with_pay
   \<and> currency blank_profile = currency blank_profile_with_pay
   \<and> expectedSalary blank_profile = expectedSalary blank_profile_with_pay
   \<and> monthlyBaseSalary blank_profile \<noteq> monthlyBaseSalary blank_profile_with_pay
   \<and> totalComp blank_profile \<noteq> totalComp blank_profile_with_pay
   \<and> request_modes blank_profile = request_modes blank_profile_with_pay
   \<and> analyzeCompensation_modes json_parse env_with_key (client_returning (Some matching_text))
        blank_profile
       = analyzeCompensation_modes json_parse env_with_key
           (client_returning (Some matching_text)) blank_profile_with_pay"
proof -
  have h1: "isEntryLevel blank_profile" by (simp add: blank_profile_def)
  have h2: "isEntryLevel blank_profile_with_pay"
    by (simp add: blank_profile_with_pay_def blank_profile_def)
  have h3: "currentRole blank_profile = currentRole blank_profile_with_pay"
    by (simp add: blank_profile_with_pay_def)
  have h4: "education blank_profile = education blank_profile_with_pay"
    by (simp add: blank_profile_with_pay_def)
  have h5: "userSkills blank_profile = userSkills blank_profile_with_pay"
    by (simp add: blank_profile_with_pay_def)
  have h6: "projectDetails blank_profile = projectDetails blank_profile_with_pay"
    by (simp add: blank_profile_with_pay_def)
  have h7: "location blank_profile = location blank_profile_with_pay"
    by (simp add: blank_profile_with_pay_def)
  have h8: "industry blank_profile = industry blank_profile_with_pay"
    by (simp add: blank_profile_with_pay_def)
  have h9: "currency blank_profile = currency blank_profile_with_pay"
    by (simp add: blank_profile_with_pay_def)
  have h10: "expectedSalary blank_profile = expectedSalary blank_profile_with_pay"
    by (simp add: blank_profile_with_pay_def)
  have d1: "monthlyBaseSalary blank_profile \<noteq> monthlyBaseSalary blank_profile_with_pay"
    by (simp add: blank_profile_with_pay_def blank_profile_def)
  have d2: "totalComp blank_profile \<noteq> totalComp blank_profile_with_pay"
    by (simp add: totalComp_def annualBaseSalary_def annualIncentive_def annualOvertime_def
          monthlyBase_def monthlyInc_def monthlyOver_def profitShare_def festival_def
          pf_def grat_def safeNum_def isNaN_def blank_profile_with_pay_def blank_profile_def)
  show ?thesis
    using h1 h2 h3 h4 h5 h6 h7 h8 h9 h10 d1 d2
      entry_level_request_ignores_pay_fields
        [OF h1 h2 h3 h4 h5 h6 h7 h8 h9 h10,
         of json_parse env_with_key "client_returning (Some matching_text)" blank_profile]
    by simp
qed


lemma safeNum_plain: "plain x \<Longrightarrow> safeNum x = Fin (amount x)"
  by (cases x; cases "the x") (simp_all add: plain_def amount_def safeNum_def isNaN_def)

lemma annual_is_monthly_times_12:
  "annualBaseSalary profile = jmul (safeNum (monthlyBaseSalary profile)) (Fin 12)"
  "annualIncentive profile = jmul (safeNum (monthlyIncentive profile)) (Fin 12)"
  "annualOvertime profile = jmul (safeNum (monthlyOvertime profile)) (Fin 12)"
  "monthlyBaseSalary profile = Some (Fin 5000) \<Longrightarrow> annualBaseSalary profile = Fin 60000"
  by (simp_all add: annualBaseSalary_def annualIncentive_def annualOvertime_def
        monthlyBase_def monthlyInc_def monthlyOver_def safeNum_def isNaN_def)

lemma totalComp_plain:
  assumes "plain (monthlyBaseSalary profile)" and "plain (monthlyIncentive profile)"
    and "plain (monthlyOvertime profile)" and "plain (annualProfitShare profile)"
    and "plain (festivalBonus profile)" and "plain (providentFund profile)"
    and "plain (gratuity profile)"
  shows "totalComp profile =
           Fin (amount (monthlyBaseSalary profile) * 12 + amount (monthlyIncentive profile) * 12
                + amount (annualProfitShare profile) + amount (monthlyOvertime profile) * 12
                + amount (festivalBonus profile) + amount (providentFund profile)
                + amount (gratuity profile))"
  using assms
  by (simp add: totalComp_def annualBaseSalary_def annualIncentive_def annualOvertime_def
        monthlyBase_def monthlyInc_def monthlyOver_def profitShare_def festival_def
        pf_def grat_def safeNum_plain)

lemma totalComp_zero:
  assumes "monthlyBaseSalary profile \<in> {None, Some NaN, Some (Fin 0)}"
    and "monthlyIncentive profile \<in> {None, Some NaN, Some (Fin 0)}"
    and "monthlyOvertime profile \<in> {None, Some NaN, Some (Fin 0)}"
    and "annualProfitShare profile \<in> {None, Some NaN, Some (Fin 0)}"
    and "festivalBonus profile \<in> {None, Some NaN, Some (Fin 0)}"
    and "providentFund profile \<in> {None, Some NaN, Some (Fin 0)}"
    and "gratuity profile \<in> {None, Some NaN, Some (Fin 0)}"
  shows "totalComp profile = Fin 0"
proof -
  have z: "\<And>x. x \<in> {None, Some NaN, Some (Fin 0)} \<Longrightarrow> safeNum x = Fin 0"
    by (auto simp: safeNum_def isNaN_def)
  show ?thesis
    using assms
    by (simp add: totalComp_def annualBaseSalary_def annualIncentive_def annualOvertime_def
          monthlyBase_def monthlyInc_def monthlyOver_def profitShare_def festival_def
          pf_def grat_def z del: insert_iff)
qed


end
